theory Spec2Isabelle
  imports Complex_Main "HOL-Library.Sublist" "HOL-Library.Multiset"
begin

section \<open>Python values\<close>

text \<open>
  A Python \<open>str\<close> is a sequence of Unicode code points and \<open>len\<close> counts code points,
  so a string is modelled as a list of code points (natural numbers), not as a list of
  8-bit characters. \<open>lit\<close> turns an ASCII literal of the source into such a list.
\<close>

type_synonym pystr = "nat list"

definition lit :: "string \<Rightarrow> pystr" where
  "lit s = map of_char s"

text \<open>
  The exception classes the source tells apart in its \<open>except\<close> clauses.
  \<open>OtherException\<close> stands for every other subclass of \<open>Exception\<close>
  (\<open>TypeError\<close>, \<open>KeyError\<close>, \<open>IndexError\<close>, \<open>ValueError\<close>, \<open>TimeoutException\<close>,
  \<open>StaleElementReferenceException\<close>, \<open>URLError\<close>, ...): the source only ever catches
  those through \<open>except Exception\<close>.
\<close>

datatype py_exn = AttributeError | JSONDecodeError | NoSuchElementException | OtherException

fun bind_exn :: "py_exn + 'a \<Rightarrow> ('a \<Rightarrow> py_exn + 'b) \<Rightarrow> py_exn + 'b" where
  "bind_exn (Inl e) f = Inl e"
| "bind_exn (Inr x) f = f x"

text \<open>
  The values \<open>json.loads\<close> produces. \<open>JNull\<close> is Python's \<open>None\<close>, which is also what
  \<open>dict.get\<close> returns for a missing key. An object is the list of its items, each key
  once. A float is represented by its value; only its being zero or not is ever observed.
\<close>

datatype json =
    JNull
  | JBool bool
  | JInt int
  | JFloat real
  | JStr pystr
  | JArr "json list"
  | JObj "(pystr \<times> json) list"

text \<open>Python truthiness (\<open>if x\<close>, \<open>not x\<close>, \<open>x or y\<close>, \<open>x and y\<close>).\<close>

fun truthy :: "json \<Rightarrow> bool" where
  "truthy JNull = False"
| "truthy (JBool b) = b"
| "truthy (JInt i) = (i \<noteq> 0)"
| "truthy (JFloat r) = (r \<noteq> 0)"
| "truthy (JStr s) = (s \<noteq> [])"
| "truthy (JArr xs) = (xs \<noteq> [])"
| "truthy (JObj kvs) = (kvs \<noteq> [])"

text \<open>\<open>x.get(key)\<close>: only a dict has the method; a missing key gives \<open>None\<close>.\<close>

fun dict_get :: "json \<Rightarrow> pystr \<Rightarrow> py_exn + json" where
  "dict_get (JObj kvs) k = Inr (case map_of kvs k of None \<Rightarrow> JNull | Some v \<Rightarrow> v)"
| "dict_get _ k = Inl AttributeError"

text \<open>
  \<open>x[key]\<close> with a string key: \<open>KeyError\<close> on a dict without the key, \<open>TypeError\<close> on every
  other JSON value.
\<close>

fun subscript_key :: "json \<Rightarrow> pystr \<Rightarrow> py_exn + json" where
  "subscript_key (JObj kvs) k = (case map_of kvs k of None \<Rightarrow> Inl OtherException | Some v \<Rightarrow> Inr v)"
| "subscript_key _ k = Inl OtherException"

text \<open>
  \<open>x[0]\<close>: the first element of a list, the first character of a string (as a string),
  \<open>IndexError\<close> when empty, \<open>KeyError\<close> on a dict (its keys are strings), \<open>TypeError\<close>
  otherwise.
\<close>

fun subscript_0 :: "json \<Rightarrow> py_exn + json" where
  "subscript_0 (JArr (x # xs)) = Inr x"
| "subscript_0 (JStr (c # cs)) = Inr (JStr [c])"
| "subscript_0 _ = Inl OtherException"

text \<open>\<open>len(x)\<close>: defined on strings, lists and dicts; \<open>TypeError\<close> otherwise.\<close>

fun py_len :: "json \<Rightarrow> py_exn + nat" where
  "py_len (JStr s) = Inr (length s)"
| "py_len (JArr xs) = Inr (length xs)"
| "py_len (JObj kvs) = Inr (length kvs)"
| "py_len _ = Inl OtherException"

text \<open>
  \<open>x[:n]\<close>: a prefix of a string or of a list; a dict or a scalar raises (\<open>TypeError\<close>, or
  \<open>KeyError\<close> on a dict from Python 3.12 on).
\<close>

fun py_prefix :: "nat \<Rightarrow> json \<Rightarrow> py_exn + json" where
  "py_prefix n (JStr s) = Inr (JStr (take n s))"
| "py_prefix n (JArr xs) = Inr (JArr (take n xs))"
| "py_prefix n _ = Inl OtherException"

text \<open>\<open>x + "..."\<close> with a string on the right: only a string on the left can be extended.\<close>

fun py_add_str :: "json \<Rightarrow> pystr \<Rightarrow> py_exn + json" where
  "py_add_str (JStr s) t = Inr (JStr (s @ t))"
| "py_add_str _ t = Inl OtherException"

subsection \<open>String methods\<close>

text \<open>The code points \<open>str.strip()\<close> removes (those for which \<open>str.isspace\<close> holds).\<close>

definition is_space :: "nat \<Rightarrow> bool" where
  "is_space c \<longleftrightarrow>
     (9 \<le> c \<and> c \<le> 13) \<or> (28 \<le> c \<and> c \<le> 32) \<or> c = 133 \<or> c = 160 \<or> c = 5760 \<or>
     (8192 \<le> c \<and> c \<le> 8202) \<or> c = 8232 \<or> c = 8233 \<or> c = 8239 \<or> c = 8287 \<or> c = 12288"

definition strip_where :: "(nat \<Rightarrow> bool) \<Rightarrow> pystr \<Rightarrow> pystr" where
  "strip_where P s = rev (dropWhile P (rev (dropWhile P s)))"

definition py_strip :: "pystr \<Rightarrow> pystr" where
  "py_strip s = strip_where is_space s"

text \<open>\<open>s.strip('@')\<close>.\<close>

definition strip_at :: "pystr \<Rightarrow> pystr" where
  "strip_at s = strip_where (\<lambda>c. c = 64) s"

text \<open>\<open>s.replace(old, "")\<close>: the occurrences of \<open>old\<close> are removed from left to right.\<close>

function str_remove :: "pystr \<Rightarrow> pystr \<Rightarrow> pystr" where
  "str_remove old [] = []"
| "str_remove old (c # cs) =
     (if old \<noteq> [] \<and> prefix old (c # cs)
      then str_remove old (drop (length old) (c # cs))
      else c # str_remove old cs)"
  by pat_completeness auto
termination
  by (relation "measure (\<lambda>(old, s). length s)") auto

text \<open>\<open>sep.join(xs)\<close>.\<close>

fun py_join :: "pystr \<Rightarrow> pystr list \<Rightarrow> pystr" where
  "py_join sep [] = []"
| "py_join sep [x] = x"
| "py_join sep (x # y # ys) = x @ sep @ py_join sep (y # ys)"

text \<open>\<open>sub in s\<close> for strings.\<close>

fun py_in :: "pystr \<Rightarrow> pystr \<Rightarrow> bool" where
  "py_in sub [] = (sub = [])"
| "py_in sub (c # cs) = (prefix sub (c # cs) \<or> py_in sub cs)"

text \<open>\<open>str(n)\<close> for an integer.\<close>

fun str_nat :: "nat \<Rightarrow> pystr" where
  "str_nat n = (if n < 10 then [48 + n] else str_nat (n div 10) @ [48 + n mod 10])"

declare str_nat.simps [simp del]

definition str_int :: "int \<Rightarrow> pystr" where
  "str_int i = (if i < 0 then 45 # str_nat (nat (- i)) else str_nat (nat i))"

text \<open>How an f-string renders an optional string: \<open>None\<close> prints as \<open>None\<close>.\<close>

definition str_opt :: "pystr option \<Rightarrow> pystr" where
  "str_opt x = (case x of None \<Rightarrow> lit ''None'' | Some s \<Rightarrow> s)"

definition nl :: pystr where
  "nl = [10]"

definition apos :: pystr where
  "apos = [39]"

definition dquote :: pystr where
  "dquote = [34]"

section \<open>Configuration, secrets and the agent\<close>

text \<open>
  \<open>config.json\<close>, with each option at the type the run configuration gives it; \<open>None\<close>
  is a key that is absent (\<open>config.get\<close> then returns its default).
\<close>

record run_config =
  action_mode :: "pystr option"
  auto_niche :: bool
  niche :: "pystr option"
  tone :: "pystr option"
  attach_image :: bool
  required_text :: "pystr option"
  word_file_path :: "pystr option"

text \<open>The secrets dict the entry point builds: four keys, each from \<open>os.environ.get\<close>.\<close>

record secrets_env =
  GEMINI_API_KEY :: "pystr option"
  NEWSAPI_KEY :: "pystr option"
  TWITTER_USERNAME :: "pystr option"
  TWITTER_PASSWORD :: "pystr option"

text \<open>What a strategy returns: the dict \<open>{"text": ..., "query_for_image": ...}\<close>.\<close>

record content_package =
  pkg_text :: json
  query_for_image :: json

text \<open>What engagement discovery returns: the dict \<open>{'author', 'text', 'url'}\<close>.\<close>

record engagement_target =
  author :: pystr
  target_text :: pystr
  url :: pystr

text \<open>
  What is handed to the browser for publication: the arguments of
  \<open>_post_tweet_in_browser\<close> and of \<open>_reply_on_twitter\<close>.
\<close>

datatype dispatch =
    PostTweet json "pystr option"
  | ReplyTweet pystr json

text \<open>
  The agent object: the four attributes \<open>__init__\<close> sets (\<open>driver\<close> is \<open>False\<close> for
  \<open>None\<close>), and the trace of its effects on the outside: the prompts sent to the AI
  service, each with its \<open>skip_json_parse\<close> flag, and the items handed to the browser.
  Log lines (\<open>_log_message\<close>) only print and are left out.
\<close>

record agent =
  config :: run_config
  secrets :: secrets_env
  driver :: bool
  tweet_history :: "pystr list"
  ai_requests :: "(pystr \<times> bool) list"
  dispatches :: "dispatch list"

definition init :: "run_config \<Rightarrow> secrets_env \<Rightarrow> agent" where
  "init cfg sec =
     \<lparr>config = cfg, secrets = sec, driver = False, tweet_history = [],
      ai_requests = [], dispatches = []\<rparr>"

definition TWITTER_CHAR_LIMIT :: nat where
  "TWITTER_CHAR_LIMIT = 280"

section \<open>The outside world\<close>

text \<open>
  A tweet element of the search page, as the four reads the source makes of it: its
  visible text, the text of its user-name span, the text of its body, and the \<open>href\<close> of
  its status link (the XPath selects a link that has one). Each read returns a string or
  raises.
\<close>

record article =
  article_text :: "py_exn + pystr"
  user_name :: "py_exn + pystr"
  tweet_text :: "py_exn + pystr"
  status_href :: "py_exn + pystr"

text \<open>The query parameters of a request to the news provider.\<close>

record news_query =
  q :: json
  apiKey :: pystr
  pageSize :: nat
  language :: pystr
  sortBy :: pystr

text \<open>
  Everything the agent reads from outside itself during one run: the random draws, the
  answers of the AI service, of the news provider, of the browser and of the file
  system, and the library functions that are not written out here
  (\<open>str\<close> on floats, lists and dicts, \<open>str.lower\<close>, \<open>urllib.parse.quote\<close>, \<open>json.loads\<close>).
  A request that raises (transport error, timeout, undecodable body) is \<open>Inl\<close>.
  An answer is a function of the request: a run sends at most one strategy prompt and one
  resummarization prompt to the AI service, and they differ.
\<close>

record world =
  random_random :: real
  choice_article :: nat
  choice_image :: nat
  sample_draw :: "nat \<Rightarrow> nat"
  str_builtin :: "json \<Rightarrow> pystr"
  str_lower :: "pystr \<Rightarrow> pystr"
  url_quote :: "pystr \<Rightarrow> pystr"
  json_loads :: "pystr \<Rightarrow> json option"
  gemini_generate :: "pystr \<Rightarrow> py_exn + json"
  newsapi_everything :: "news_query \<Rightarrow> py_exn + json"
  webdriver_starts :: bool
  login_succeeds :: bool
  trending_page :: "py_exn + pystr list"
  tweet_articles :: "pystr \<Rightarrow> py_exn + article list"
  path_exists :: "pystr \<Rightarrow> bool"
  docx_available :: bool
  docx_paragraphs :: "pystr \<Rightarrow> py_exn + pystr list"
  urlretrieve :: "json \<Rightarrow> py_exn + bool"
  temp_image_path :: pystr

text \<open>\<open>str(x)\<close>, as an f-string applies it to a JSON value.\<close>

definition py_str :: "world \<Rightarrow> json \<Rightarrow> pystr" where
  "py_str w x =
     (case x of
        JStr s \<Rightarrow> s
      | JNull \<Rightarrow> lit ''None''
      | JBool b \<Rightarrow> (if b then lit ''True'' else lit ''False'')
      | JInt i \<Rightarrow> str_int i
      | _ \<Rightarrow> str_builtin w x)"

section \<open>The AI client\<close>

text \<open>
  The part of \<open>call_ai_model\<close> after the response body is decoded: \<open>Inr None\<close> when the
  condition on \<open>candidates\<close> and \<open>finishReason\<close> is false, the stripped text otherwise,
  \<open>Inl\<close> where an access raises.
\<close>

definition candidate_text :: "json \<Rightarrow> py_exn + pystr option" where
  "candidate_text result =
     bind_exn (dict_get result (lit ''candidates'')) (\<lambda>cands.
       if \<not> truthy cands then Inr None
       else
         bind_exn (subscript_0 cands) (\<lambda>c.
         bind_exn (dict_get c (lit ''finishReason'')) (\<lambda>fr.
           if fr = JStr (lit ''SAFETY'') then Inr None
           else
             bind_exn (subscript_key c (lit ''content'')) (\<lambda>content.
             bind_exn (subscript_key content (lit ''parts'')) (\<lambda>parts.
             bind_exn (subscript_0 parts) (\<lambda>part.
             bind_exn (subscript_key part (lit ''text'')) (\<lambda>t.
               case t of
                 JStr s \<Rightarrow> Inr (Some (py_strip s))
               | _ \<Rightarrow> Inl AttributeError)))))))"

text \<open>
  \<open>call_ai_model\<close>: the request is sent (and recorded), and every exception of the body
  is caught, so the result is a string or \<open>None\<close>.
\<close>

definition call_ai_model :: "world \<Rightarrow> pystr \<Rightarrow> bool \<Rightarrow> agent \<Rightarrow> pystr option \<times> agent" where
  "call_ai_model w prompt skip_json_parse a =
     (let a' = a\<lparr>ai_requests := ai_requests a @ [(prompt, skip_json_parse)]\<rparr> in
      case bind_exn (gemini_generate w prompt) candidate_text of
        Inl e \<Rightarrow> (None, a')
      | Inr None \<Rightarrow> (None, a')
      | Inr (Some text_response) \<Rightarrow>
          (Some (if skip_json_parse then text_response
                 else str_remove (lit ''```'') (str_remove (lit ''```json'') text_response)),
           a'))"

section \<open>The length enforcer\<close>

text \<open>The resummarization prompt of \<open>_truncate_or_summarize\<close>.\<close>

definition summarize_prompt :: "world \<Rightarrow> json \<Rightarrow> pystr" where
  "summarize_prompt w text =
     lit ''Summarize the following text to be well under '' @ str_nat TWITTER_CHAR_LIMIT @
     lit '' characters for a tweet. Keep the original tone and key message.'' @ nl @ nl @
     lit ''TEXT:'' @ nl @ lit ''---'' @ nl @ py_str w text"

text \<open>
  \<open>_truncate_or_summarize\<close>. Its callers pass whatever the AI response holds under
  \<open>tweet_text\<close>, so the argument is any truthy JSON value; on a value that is not a
  string \<open>len\<close>, the slice or the concatenation may raise.
\<close>

definition truncate_or_summarize :: "world \<Rightarrow> json \<Rightarrow> agent \<Rightarrow> (py_exn + json) \<times> agent" where
  "truncate_or_summarize w text a =
     (case py_len text of
        Inl e \<Rightarrow> (Inl e, a)
      | Inr n \<Rightarrow>
          if n \<le> TWITTER_CHAR_LIMIT then (Inr text, a)
          else
            (case call_ai_model w (summarize_prompt w text) True a of
               (summarized_text, a') \<Rightarrow>
                 if (case summarized_text of
                       None \<Rightarrow> True
                     | Some s \<Rightarrow> s = [] \<or> length s > TWITTER_CHAR_LIMIT)
                 then (bind_exn (py_prefix (TWITTER_CHAR_LIMIT - 3) text)
                         (\<lambda>t. py_add_str t (lit ''...'')), a')
                 else (Inr (JStr (the summarized_text)), a')))"

section \<open>The prompt builder\<close>

text \<open>
  \<open>_create_master_prompt\<close>. The persona and the niche come from \<open>config.get\<close> and may be
  \<open>None\<close>, which the f-string prints as \<open>None\<close>.
\<close>

definition create_master_prompt ::
  "agent \<Rightarrow> pystr \<Rightarrow> pystr option \<Rightarrow> pystr option \<Rightarrow> bool \<Rightarrow> pystr" where
  \<open>create_master_prompt a task personality niche_name is_reply =
     (let history_context =
            (if tweet_history a \<noteq> [] then py_join nl (tweet_history a)
             else lit ''No recent activity.'');
          output_json =
            (if is_reply
             then lit ''"analysis": "Justification for your reply.", "tweet_text": "The reply text. DO NOT use @ mentions."''
             else lit ''"analysis": "A brief summary.", "tweet_text": "The final tweet text."'');
          main_task = lit ''**TASK:** '' @ task
      in lit ''**Persona:** You are a '' @ apos @ str_opt personality @ apos @
         lit '' expert in '' @ apos @ str_opt niche_name @ apos @ lit ''.'' @ nl @
         lit ''**Your Recent Activity:**'' @ nl @ history_context @ nl @ main_task @ nl @
         lit ''**Output Format (Strictly JSON):**'' @ nl @ lit ''```json'' @ nl @
         lit ''{'' @ nl @ lit ''  '' @ output_json @ nl @ lit ''}'' @ nl @ lit ''```'')\<close>

text \<open>\<open>_create_engagement_prompt\<close>, and its local \<open>task\<close>.\<close>

definition engagement_task :: "engagement_target \<Rightarrow> pystr" where
  "engagement_task target =
     lit ''You've found a tweet from @'' @ author target @ lit '' that says: '' @
     dquote @ target_text target @ dquote @ nl @
     lit ''Your task is to write a valuable, insightful reply.''"

definition create_engagement_prompt :: "agent \<Rightarrow> engagement_target \<Rightarrow> pystr" where
  "create_engagement_prompt a target =
     (let niche_name = (case niche (config a) of None \<Rightarrow> [] | Some n \<Rightarrow> n);
          personality = (case tone (config a) of None \<Rightarrow> lit ''Thought Leader'' | Some t \<Rightarrow> t)
      in create_master_prompt a (engagement_task target) (Some personality) (Some niche_name) True)"

section \<open>Content strategies\<close>

text \<open>
  \<open>try: ... except Exception as e: log; return None\<close> around the body of a strategy:
  whatever the body raises, the strategy returns \<open>None\<close>.
\<close>

definition except_Exception ::
  "(py_exn + 'a option) \<times> agent \<Rightarrow> (py_exn + 'a option) \<times> agent" where
  "except_Exception r =
     (case r of
        (Inl e, a) \<Rightarrow> (Inr None, a)
      | (Inr x, a) \<Rightarrow> (Inr x, a))"

text \<open>\<open>not s\<close> for the result of \<open>call_ai_model\<close>: \<open>None\<close> or the empty string.\<close>

definition no_response :: "pystr option \<Rightarrow> bool" where
  "no_response r = (case r of None \<Rightarrow> True | Some s \<Rightarrow> s = [])"

text \<open>
  \<open>random.choice(x)\<close>, with the index it draws given by \<open>r\<close>: an element of a list, a
  character of a string; \<open>IndexError\<close> when empty, \<open>KeyError\<close> on a dict, \<open>TypeError\<close>
  on a scalar.
\<close>

fun random_choice :: "nat \<Rightarrow> json \<Rightarrow> py_exn + json" where
  "random_choice r (JArr xs) =
     (if xs = [] then Inl OtherException else Inr (xs ! (r mod length xs)))"
| "random_choice r (JStr s) =
     (if s = [] then Inl OtherException else Inr (JStr [s ! (r mod length s)]))"
| "random_choice r _ = Inl OtherException"

definition opt_json :: "pystr option \<Rightarrow> json" where
  "opt_json x = (case x of None \<Rightarrow> JNull | Some s \<Rightarrow> JStr s)"

text \<open>
  The headline step of \<open>_generate_from_news_article\<close>: the status and article checks, the
  random choice and the title. \<open>Inr None\<close> is an early \<open>return None\<close>.
\<close>

definition news_headline :: "world \<Rightarrow> json \<Rightarrow> py_exn + json option" where
  "news_headline w api_data =
     bind_exn (dict_get api_data (lit ''status'')) (\<lambda>status.
       if status \<noteq> JStr (lit ''ok'') then Inr None
       else
         bind_exn (dict_get api_data (lit ''articles'')) (\<lambda>listed.
           if \<not> truthy listed then Inr None
           else
             bind_exn (subscript_key api_data (lit ''articles'')) (\<lambda>articles.
             bind_exn (random_choice (choice_article w) articles) (\<lambda>chosen.
             bind_exn (dict_get chosen (lit ''title'')) (\<lambda>headline.
               if \<not> truthy headline then Inr None else Inr (Some headline))))))"

text \<open>The locals \<open>params\<close> and \<open>task\<close> of \<open>_generate_from_news_article\<close>.\<close>

definition news_params :: "agent \<Rightarrow> pystr \<Rightarrow> news_query" where
  "news_params a api_key =
     \<lparr>q = opt_json (niche (config a)), apiKey = api_key, pageSize = 50,
      language = lit ''en'', sortBy = lit ''publishedAt''\<rparr>"

definition news_task :: "world \<Rightarrow> json \<Rightarrow> pystr" where
  "news_task w headline =
     lit ''Analyze this news headline: '' @ apos @ py_str w headline @ apos @
     lit ''. Formulate an insightful tweet about it.''"

text \<open>\<open>_generate_from_news_article\<close>.\<close>

definition generate_from_news_article ::
  "world \<Rightarrow> agent \<Rightarrow> (py_exn + content_package option) \<times> agent" where
  "generate_from_news_article w a =
     (case NEWSAPI_KEY (secrets a) of
        None \<Rightarrow> (Inr None, a)
      | Some api_key \<Rightarrow>
          if api_key = [] then (Inr None, a)
          else except_Exception
            (case bind_exn (newsapi_everything w (news_params a api_key)) (news_headline w) of
               Inl e \<Rightarrow> (Inl e, a)
             | Inr None \<Rightarrow> (Inr None, a)
             | Inr (Some headline) \<Rightarrow>
                 (let prompt = create_master_prompt a (news_task w headline) (tone (config a))
                                 (niche (config a)) False
                  in case call_ai_model w prompt False a of
                       (response_json, a') \<Rightarrow>
                         if no_response response_json then (Inr None, a')
                         else
                           (case json_loads w (the response_json) of
                              None \<Rightarrow> (Inl JSONDecodeError, a')
                            | Some parsed \<Rightarrow>
                                (bind_exn (dict_get parsed (lit ''tweet_text'')) (\<lambda>text.
                                   Inr (Some \<lparr>pkg_text = text, query_for_image = headline\<rparr>)),
                                 a')))))"

text \<open>
  \<open>_analyze_and_generate_from_global_trends\<close>. \<open>trending_page\<close> is the list of the texts
  of the trend elements once the page has loaded, or the exception of the navigation or
  of the wait.
\<close>

definition trends_task :: "pystr list \<Rightarrow> pystr" where
  "trends_task trends_text_list =
     lit ''From these trends, find the most interesting one and write an engaging tweet:'' @
     nl @ py_join nl trends_text_list"

definition analyze_and_generate_from_global_trends ::
  "world \<Rightarrow> agent \<Rightarrow> (py_exn + content_package option) \<times> agent" where
  "analyze_and_generate_from_global_trends w a =
     except_Exception
       (case (if \<not> driver a then Inl AttributeError else trending_page w) of
          Inl e \<Rightarrow> (Inl e, a)
        | Inr elems \<Rightarrow>
            (let trends_text_list = filter (\<lambda>t. t \<noteq> []) elems in
             if trends_text_list = [] then (Inr None, a)
             else
               (let prompt = create_master_prompt a (trends_task trends_text_list)
                               (tone (config a)) (Some (lit ''Current Events'')) False
                in case call_ai_model w prompt False a of
                     (response_json, a') \<Rightarrow>
                       if no_response response_json then (Inr None, a')
                       else
                         (case json_loads w (the response_json) of
                            None \<Rightarrow> (Inl JSONDecodeError, a')
                          | Some parsed \<Rightarrow>
                              (bind_exn (dict_get parsed (lit ''tweet_text'')) (\<lambda>text.
                               bind_exn (dict_get parsed (lit ''analysis'')) (\<lambda>analysis.
                                 Inr (Some \<lparr>pkg_text = text,
                                            query_for_image =
                                              (if truthy analysis then analysis else text)\<rparr>))),
                               a')))))"

text \<open>\<open>_generate_from_word_file\<close>.\<close>

definition word_task :: "pystr list \<Rightarrow> pystr" where
  "word_task paragraphs =
     lit ''Create a compelling tweet that captures the main idea of this text:'' @
     nl @ lit ''---'' @ nl @ take 4000 (py_join nl paragraphs)"

definition generate_from_word_file ::
  "world \<Rightarrow> agent \<Rightarrow> (py_exn + content_package option) \<times> agent" where
  "generate_from_word_file w a =
     (case word_file_path (config a) of
        None \<Rightarrow> (Inr None, a)
      | Some filepath \<Rightarrow>
          if filepath = [] \<or> \<not> path_exists w filepath then (Inr None, a)
          else except_Exception
            (if \<not> docx_available w then (Inr None, a)
             else
               (case docx_paragraphs w filepath of
                  Inl e \<Rightarrow> (Inl e, a)
                | Inr paragraphs \<Rightarrow>
                    (let prompt = create_master_prompt a (word_task paragraphs) (tone (config a))
                                    (Some (lit ''document analysis'')) False
                     in case call_ai_model w prompt False a of
                          (response_json, a') \<Rightarrow>
                            if no_response response_json then (Inr None, a')
                            else
                              (case json_loads w (the response_json) of
                                 None \<Rightarrow> (Inl JSONDecodeError, a')
                               | Some parsed \<Rightarrow>
                                   (bind_exn (dict_get parsed (lit ''tweet_text'')) (\<lambda>text.
                                    bind_exn (py_prefix 100 text) (\<lambda>query.
                                      Inr (Some \<lparr>pkg_text = text, query_for_image = query\<rparr>))),
                                    a'))))))"

text \<open>
  \<open>_get_generation_function\<close>: the strategy for a mode, \<open>None\<close> for a mode that is not in
  the table.
\<close>

datatype strategy = GlobalTrends | NewsArticle | WordFile

definition get_generation_function :: "agent \<Rightarrow> pystr \<Rightarrow> strategy option" where
  "get_generation_function a mode =
     (if auto_niche (config a) then Some GlobalTrends
      else map_of
        [(lit ''strategic_mix'', GlobalTrends),
         (lit ''post_only_controversy'', GlobalTrends),
         (lit ''post_only_news'', NewsArticle),
         (lit ''post_only_word'', WordFile)] mode)"

fun generation_function ::
  "strategy \<Rightarrow> world \<Rightarrow> agent \<Rightarrow> (py_exn + content_package option) \<times> agent" where
  "generation_function GlobalTrends = analyze_and_generate_from_global_trends"
| "generation_function NewsArticle = generate_from_news_article"
| "generation_function WordFile = generate_from_word_file"

section \<open>Engagement target discovery\<close>

text \<open>
  \<open>random.sample(population, k)\<close>: \<open>k\<close> elements at distinct positions, the \<open>i\<close>-th draw
  choosing among the positions not taken yet; \<open>ValueError\<close> when \<open>k\<close> exceeds the size of
  the population.
\<close>

fun draw_distinct :: "(nat \<Rightarrow> nat) \<Rightarrow> 'a list \<Rightarrow> nat \<Rightarrow> 'a list" where
  "draw_distinct d pool 0 = []"
| "draw_distinct d pool (Suc k) =
     (if pool = [] then []
      else (let i = d k mod length pool
            in pool ! i # draw_distinct d (take i pool @ drop (Suc i) pool) k))"

definition random_sample :: "(nat \<Rightarrow> nat) \<Rightarrow> 'a list \<Rightarrow> nat \<Rightarrow> py_exn + 'a list" where
  "random_sample d population k =
     (if k > length population then Inl OtherException
      else Inr (draw_distinct d population k))"

text \<open>
  The body of the inner \<open>try\<close> of \<open>_find_tweet_to_engage_with\<close> for one tweet element:
  \<open>Inr None\<close> when the element is promoted, the target when it is not and its three
  fields are read, \<open>Inl\<close> when a read raises.
\<close>

definition inspect_article :: "world \<Rightarrow> article \<Rightarrow> py_exn + engagement_target option" where
  "inspect_article w art =
     bind_exn (article_text art) (\<lambda>shown.
       if \<not> py_in (lit ''promoted'') (str_lower w shown) then
         bind_exn (user_name art) (\<lambda>handle.
         bind_exn (tweet_text art) (\<lambda>body.
         bind_exn (status_href art) (\<lambda>href.
           Inr (Some \<lparr>author = strip_at handle, target_text = body, url = href\<rparr>))))
       else Inr None)"

text \<open>
  The \<open>for\<close> loop over the sampled elements: \<open>NoSuchElementException\<close> continues with the
  next element, any other exception leaves the loop.
\<close>

fun engage_loop :: "world \<Rightarrow> article list \<Rightarrow> py_exn + engagement_target option" where
  "engage_loop w [] = Inr None"
| "engage_loop w (art # rest) =
     (case inspect_article w art of
        Inl e \<Rightarrow> (if e = NoSuchElementException then engage_loop w rest else Inl e)
      | Inr None \<Rightarrow> engage_loop w rest
      | Inr (Some target) \<Rightarrow> Inr (Some target))"

definition search_url :: "world \<Rightarrow> agent \<Rightarrow> pystr" where
  "search_url w a =
     (let niche_name = (case niche (config a) of None \<Rightarrow> [] | Some n \<Rightarrow> n)
      in if niche_name \<noteq> []
         then lit ''https://x.com/search?q='' @ url_quote w niche_name @
              lit ''&src=typed_query&f=live''
         else lit ''https://x.com/home'')"

text \<open>The elements the loop of \<open>_find_tweet_to_engage_with\<close> runs over.\<close>

definition sampled_articles :: "world \<Rightarrow> agent \<Rightarrow> py_exn + article list" where
  "sampled_articles w a =
     bind_exn (if \<not> driver a then Inl AttributeError else tweet_articles w (search_url w a))
       (\<lambda>articles. random_sample (sample_draw w) articles (min (length articles) 10))"

text \<open>
  \<open>_find_tweet_to_engage_with\<close>: the outer \<open>except Exception\<close> turns every exception into
  \<open>None\<close>.
\<close>

definition find_tweet_to_engage_with :: "world \<Rightarrow> agent \<Rightarrow> py_exn + engagement_target option" where
  "find_tweet_to_engage_with w a =
     (case bind_exn (sampled_articles w a) (engage_loop w) of
        Inl e \<Rightarrow> Inr None
      | Inr found \<Rightarrow> Inr found)"

section \<open>Media lookup\<close>

text \<open>\<open>_download_image\<close>: the path of the downloaded file, or \<open>None\<close>.\<close>

definition download_image :: "world \<Rightarrow> json \<Rightarrow> pystr option" where
  "download_image w image_url =
     (case urlretrieve w image_url of
        Inl e \<Rightarrow> None
      | Inr present \<Rightarrow> if present then Some (temp_image_path w) else None)"

fun keep_with_image :: "json list \<Rightarrow> py_exn + json list" where
  "keep_with_image [] = Inr []"
| "keep_with_image (x # xs) =
     bind_exn (dict_get x (lit ''urlToImage'')) (\<lambda>u.
     bind_exn (keep_with_image xs) (\<lambda>kept.
       Inr (if truthy u then x # kept else kept)))"

text \<open>
  The list comprehension over \<open>api_data["articles"]\<close>: iterating a string or a dict gives
  strings, which have no \<open>get\<close>; a scalar is not iterable.
\<close>

fun articles_with_images :: "json \<Rightarrow> py_exn + json list" where
  "articles_with_images (JArr xs) = keep_with_image xs"
| "articles_with_images (JStr s) = (if s = [] then Inr [] else Inl AttributeError)"
| "articles_with_images (JObj kvs) = (if kvs = [] then Inr [] else Inl AttributeError)"
| "articles_with_images _ = Inl OtherException"

text \<open>\<open>_get_image_from_newsapi\<close>.\<close>

definition get_image_from_newsapi :: "world \<Rightarrow> agent \<Rightarrow> json \<Rightarrow> pystr option" where
  "get_image_from_newsapi w a query =
     (case NEWSAPI_KEY (secrets a) of
        None \<Rightarrow> None
      | Some api_key \<Rightarrow>
          if api_key = [] then None
          else
            (case bind_exn
                    (newsapi_everything w
                       \<lparr>q = query, apiKey = api_key, pageSize = 20, language = lit ''en'',
                        sortBy = lit ''relevancy''\<rparr>) (\<lambda>api_data.
                  bind_exn (dict_get api_data (lit ''status'')) (\<lambda>status.
                    if status \<noteq> JStr (lit ''ok'') then Inr None
                    else
                      bind_exn (dict_get api_data (lit ''articles'')) (\<lambda>listed.
                        if \<not> truthy listed then Inr None
                        else
                          bind_exn (subscript_key api_data (lit ''articles'')) (\<lambda>articles.
                          bind_exn (articles_with_images articles) (\<lambda>with_images.
                            if with_images = [] then Inr None
                            else
                              bind_exn (subscript_key
                                          (with_images ! (choice_image w mod length with_images))
                                          (lit ''urlToImage'')) (\<lambda>image_url.
                                Inr (download_image w image_url))))))) of
               Inl e \<Rightarrow> None
             | Inr path \<Rightarrow> path))"

section \<open>The dispatch orchestrator\<close>

text \<open>
  \<open>_post_tweet_in_browser\<close> and \<open>_reply_on_twitter\<close> catch every exception of the browser;
  what is recorded is the item they were given.
\<close>

definition post_tweet_in_browser :: "json \<Rightarrow> pystr option \<Rightarrow> agent \<Rightarrow> agent" where
  "post_tweet_in_browser text image_path a =
     a\<lparr>dispatches := dispatches a @ [PostTweet text image_path]\<rparr>"

definition reply_on_twitter :: "pystr \<Rightarrow> json \<Rightarrow> agent \<Rightarrow> agent" where
  "reply_on_twitter target_url text a =
     a\<lparr>dispatches := dispatches a @ [ReplyTweet target_url text]\<rparr>"

text \<open>
  The two lines that append the required trailer, in \<open>perform_post_action\<close> and in
  \<open>perform_reply_action\<close> alike.
\<close>

definition append_required_text :: "world \<Rightarrow> agent \<Rightarrow> json \<Rightarrow> json" where
  "append_required_text w a text =
     (case required_text (config a) of
        None \<Rightarrow> text
      | Some trailer \<Rightarrow>
          if trailer = [] then text else JStr (py_str w text @ nl @ nl @ trailer))"

text \<open>\<open>perform_post_action\<close>.\<close>

definition perform_post_action :: "world \<Rightarrow> pystr \<Rightarrow> agent \<Rightarrow> (py_exn + unit) \<times> agent" where
  "perform_post_action w mode a =
     (case get_generation_function a mode of
        None \<Rightarrow> (Inr (), a)
      | Some g \<Rightarrow>
          (case generation_function g w a of
             (Inl e, a1) \<Rightarrow> (Inl e, a1)
           | (Inr None, a1) \<Rightarrow> (Inr (), a1)
           | (Inr (Some content_package), a1) \<Rightarrow>
               if \<not> truthy (pkg_text content_package) then (Inr (), a1)
               else
                 (case truncate_or_summarize w (pkg_text content_package) a1 of
                    (Inl e, a2) \<Rightarrow> (Inl e, a2)
                  | (Inr text, a2) \<Rightarrow>
                      (let image_path =
                             (if attach_image (config a2)
                              then get_image_from_newsapi w a2 (query_for_image content_package)
                              else None)
                       in (Inr (),
                           post_tweet_in_browser (append_required_text w a2 text) image_path a2)))))"

text \<open>
  \<open>perform_reply_action\<close>: the \<open>try\<close> around the parse catches \<open>JSONDecodeError\<close> and
  \<open>AttributeError\<close> only.
\<close>

definition perform_reply_action :: "world \<Rightarrow> agent \<Rightarrow> (py_exn + unit) \<times> agent" where
  "perform_reply_action w a =
     (case find_tweet_to_engage_with w a of
        Inl e \<Rightarrow> (Inl e, a)
      | Inr None \<Rightarrow> (Inr (), a)
      | Inr (Some target) \<Rightarrow>
          (case call_ai_model w (create_engagement_prompt a target) False a of
             (response_json, a1) \<Rightarrow>
               if no_response response_json then (Inr (), a1)
               else
                 (case json_loads w (the response_json) of
                    None \<Rightarrow> (Inr (), a1)
                  | Some parsed \<Rightarrow>
                      (case dict_get parsed (lit ''tweet_text'') of
                         Inl e \<Rightarrow>
                           (if e = JSONDecodeError \<or> e = AttributeError then (Inr (), a1)
                            else (Inl e, a1))
                       | Inr text \<Rightarrow>
                           if \<not> truthy text then (Inr (), a1)
                           else
                             (case truncate_or_summarize w text a1 of
                                (Inl e, a2) \<Rightarrow>
                                  (if e = JSONDecodeError \<or> e = AttributeError then (Inr (), a2)
                                   else (Inl e, a2))
                              | (Inr enforced, a2) \<Rightarrow>
                                  (Inr (),
                                   reply_on_twitter (url target)
                                     (append_required_text w a2 enforced) a2))))))"

section \<open>The action cycle\<close>

text \<open>
  The choice of the action in \<open>run_action_cycle\<close>, as a function of the mode and of the
  value of \<open>random.random()\<close>. Every double below the double \<open>0.40\<close> is below the real
  number \<open>0.4\<close> and conversely, so the comparison is the one on the reals.
\<close>

definition action_type :: "pystr \<Rightarrow> real \<Rightarrow> pystr" where
  "action_type mode draw =
     (if mode = lit ''strategic_mix'' then (if draw < 0.40 then lit ''reply'' else lit ''post'')
      else if mode = lit ''reply_only'' then lit ''reply''
      else lit ''post'')"

text \<open>
  \<open>run_action_cycle\<close>. \<open>_setup_driver\<close> and \<open>_login_to_twitter\<close> succeed or not as the
  world says; \<open>_shutdown_browser\<close> has no effect on the agent.
\<close>

definition run_action_cycle :: "world \<Rightarrow> agent \<Rightarrow> (py_exn + unit) \<times> agent" where
  "run_action_cycle w a =
     (if \<not> webdriver_starts w then (Inr (), a)
      else
        (let a1 = a\<lparr>driver := True\<rparr> in
         if login_succeeds w then
           (let mode = (case action_mode (config a1) of
                          None \<Rightarrow> lit ''strategic_mix''
                        | Some m \<Rightarrow> m)
            in if action_type mode (random_random w) = lit ''reply''
               then perform_reply_action w a1
               else perform_post_action w mode a1)
         else (Inr (), a1)))"

section \<open>What a run may change\<close>

text \<open>
  \<open>evolves a a'\<close>: from \<open>a\<close> to \<open>a'\<close> the configuration, the secrets and the history are
  unchanged, and every request added to the trace either is a raw request
  (\<open>skip_json_parse\<close>, the resummarization) or carries a prompt the prompt builder made
  in \<open>a\<close>.
\<close>

definition evolves :: "agent \<Rightarrow> agent \<Rightarrow> bool" where
  "evolves a a' \<longleftrightarrow>
     config a' = config a \<and> secrets a' = secrets a \<and> tweet_history a' = tweet_history a \<and>
     (\<exists>new. ai_requests a' = ai_requests a @ new \<and>
        (\<forall>req \<in> set new. snd req \<or>
           (\<exists>task personality niche_name is_reply.
              fst req = create_master_prompt a task personality niche_name is_reply)))"

section \<open>Worlds used to run the definitions\<close>

text \<open>A world in which every outside request fails.\<close>

definition offline :: world where
  "offline =
     \<lparr>random_random = 0, choice_article = 0, choice_image = 0, sample_draw = (\<lambda>i. 0),
      str_builtin = (\<lambda>x. []), str_lower = (\<lambda>s. s), url_quote = (\<lambda>s. s),
      json_loads = (\<lambda>s. None), gemini_generate = (\<lambda>p. Inl OtherException),
      newsapi_everything = (\<lambda>r. Inl OtherException), webdriver_starts = False,
      login_succeeds = False, trending_page = Inl OtherException,
      tweet_articles = (\<lambda>u. Inl OtherException), path_exists = (\<lambda>p. False),
      docx_available = False, docx_paragraphs = (\<lambda>p. Inl OtherException),
      urlretrieve = (\<lambda>u. Inl OtherException), temp_image_path = []\<rparr>"

text \<open>
  A world in which the browser starts and logs in, and shows no trend and no tweet.
\<close>

definition quiet :: world where
  "quiet = offline\<lparr>webdriver_starts := True, login_succeeds := True, trending_page := Inr [],
                    tweet_articles := (\<lambda>u. Inr [])\<rparr>"

text \<open>A response body of the AI service that carries the text \<open>s\<close>.\<close>

definition gemini_body :: "pystr \<Rightarrow> json" where
  "gemini_body s =
     JObj [(lit ''candidates'',
            JArr [JObj [(lit ''content'',
                         JObj [(lit ''parts'', JArr [JObj [(lit ''text'', JStr s)]])]),
                        (lit ''finishReason'', JStr (lit ''STOP''))]])]"

text \<open>
  A world in which the browser works and shows one trend, the news provider answers \<open>news\<close>
  and the AI service answers \<open>reply\<close>, which \<open>json.loads\<close> decodes to \<open>parsed\<close>.
\<close>

definition online :: "json \<Rightarrow> pystr \<Rightarrow> json \<Rightarrow> world" where
  "online news reply parsed =
     offline\<lparr>newsapi_everything := (\<lambda>r. Inr news),
             gemini_generate := (\<lambda>p. Inr (gemini_body reply)),
             json_loads := (\<lambda>s. if s = reply then Some parsed else None),
             webdriver_starts := True, login_succeeds := True,
             trending_page := Inr [lit ''#AI'']\<rparr>"

text \<open>Answers of the news provider.\<close>

definition news_of :: "json \<Rightarrow> json" where
  "news_of articles = JObj [(lit ''status'', JStr (lit ''ok'')), (lit ''articles'', articles)]"

definition nasa_news :: json where
  "nasa_news = news_of (JArr [JObj [(lit ''title'', JStr (lit ''NASA announces new mission''))]])"

text \<open>Answers of the AI service, each with what \<open>json.loads\<close> makes of it.\<close>

definition hello_reply :: pystr where
  \<open>hello_reply = lit ''{"analysis": "greeting", "tweet_text": "Hello"}''\<close>

definition hello_parsed :: json where
  "hello_parsed =
     JObj [(lit ''analysis'', JStr (lit ''greeting'')), (lit ''tweet_text'', JStr (lit ''Hello''))]"

definition analysis_reply :: pystr where
  \<open>analysis_reply = lit ''{"analysis": "AI boom"}''\<close>

definition analysis_parsed :: json where
  "analysis_parsed = JObj [(lit ''analysis'', JStr (lit ''AI boom''))]"

definition blank_reply :: pystr where
  \<open>blank_reply = lit ''{"analysis": ""}''\<close>

definition blank_parsed :: json where
  "blank_parsed = JObj [(lit ''analysis'', JStr [])]"

definition long_reply :: pystr where
  \<open>long_reply = lit ''{"tweet_text": "'' @ replicate 280 65 @ lit ''"}''\<close>

definition long_parsed :: json where
  "long_parsed = JObj [(lit ''tweet_text'', JStr (replicate 280 65))]"

text \<open>The world \<open>online\<close> with the tweets \<open>shown\<close> on the search page.\<close>

definition timeline :: "article list \<Rightarrow> world" where
  "timeline shown =
     (online JNull hello_reply hello_parsed)\<lparr>tweet_articles := (\<lambda>u. Inr shown)\<rparr>"

text \<open>
  Tweets of the search page: one whose fields can all be read, one whose user name
  raises a stale-element exception, three of which the body, the user name or the status
  link is not found, and a promoted one; and the target read from the first.
\<close>

definition good_article :: article where
  "good_article =
     \<lparr>article_text = Inr (lit ''alice @alice Great launch today''),
      user_name = Inr (lit ''@alice''),
      tweet_text = Inr (lit ''Great launch today''),
      status_href = Inr (lit ''https://x.com/alice/status/1'')\<rparr>"

definition stale_article :: article where
  "stale_article =
     \<lparr>article_text = Inr (lit ''bob @bob Breaking news''),
      user_name = Inl OtherException,
      tweet_text = Inr (lit ''Breaking news''),
      status_href = Inr (lit ''https://x.com/bob/status/2'')\<rparr>"

definition missing_article :: article where
  "missing_article =
     \<lparr>article_text = Inr (lit ''carol @carol''),
      user_name = Inr (lit ''@carol''),
      tweet_text = Inl NoSuchElementException,
      status_href = Inr (lit ''https://x.com/carol/status/3'')\<rparr>"

definition nohandle_article :: article where
  "nohandle_article =
     \<lparr>article_text = Inr (lit ''dave Nice picture''),
      user_name = Inl NoSuchElementException,
      tweet_text = Inr (lit ''Nice picture''),
      status_href = Inr (lit ''https://x.com/dave/status/4'')\<rparr>"

definition nolink_article :: article where
  "nolink_article =
     \<lparr>article_text = Inr (lit ''erin @erin Draft''),
      user_name = Inr (lit ''@erin''),
      tweet_text = Inr (lit ''Draft''),
      status_href = Inl NoSuchElementException\<rparr>"

definition promoted_article :: article where
  "promoted_article =
     \<lparr>article_text = Inr (lit ''shop @shop Buy now promoted''),
      user_name = Inr (lit ''@shop''),
      tweet_text = Inr (lit ''Buy now''),
      status_href = Inr (lit ''https://x.com/shop/status/5'')\<rparr>"

definition alice_target :: engagement_target where
  "alice_target =
     \<lparr>author = lit ''alice'', target_text = lit ''Great launch today'',
      url = lit ''https://x.com/alice/status/1''\<rparr>"

text \<open>Configurations and secrets.\<close>

definition no_config :: run_config where
  "no_config =
     \<lparr>action_mode = None, auto_niche = False, niche = None, tone = None,
      attach_image = False, required_text = None, word_file_path = None\<rparr>"

definition news_config :: run_config where
  "news_config =
     no_config\<lparr>action_mode := Some (lit ''post_only_news''), niche := Some (lit ''space'')\<rparr>"

definition bot_config :: run_config where
  "bot_config = news_config\<lparr>required_text := Some (lit ''Posted by Bot'')\<rparr>"

definition word_config :: run_config where
  "word_config =
     no_config\<lparr>action_mode := Some (lit ''post_only_word''),
                word_file_path := Some (lit ''notes.docx'')\<rparr>"

definition no_secrets :: secrets_env where
  "no_secrets =
     \<lparr>GEMINI_API_KEY = None, NEWSAPI_KEY = None, TWITTER_USERNAME = None,
      TWITTER_PASSWORD = None\<rparr>"

definition all_secrets :: secrets_env where
  "all_secrets =
     \<lparr>GEMINI_API_KEY = Some (lit ''gemini-key''), NEWSAPI_KEY = Some (lit ''news-key''),
      TWITTER_USERNAME = Some (lit ''bot''), TWITTER_PASSWORD = Some (lit ''secret'')\<rparr>"

text \<open>The agent once \<open>_setup_driver\<close> has started the browser.\<close>

definition logged_in :: "run_config \<Rightarrow> agent" where
  "logged_in cfg = (init cfg all_secrets)\<lparr>driver := True\<rparr>"

section \<open>Properties of the length enforcer\<close>

lemma call_ai_model_cases:
  obtains (none) a' where "call_ai_model w p skip a = (None, a')"
  | (some) s a' where "call_ai_model w p skip a = (Some s, a')"
  by (cases "call_ai_model w p skip a") (metis option.exhaust prod.collapse fst_conv)

lemma length_lit [simp]: "length (lit s) = length s"
  by (simp add: lit_def)

text \<open>
  C1. On every string, whatever the AI service answers, \<open>_truncate_or_summarize\<close>
  returns (it does not raise) a string of at most 280 code points.
\<close>

theorem truncate_or_summarize_within_limit:
  "\<exists>r a'. truncate_or_summarize w (JStr text) a = (Inr (JStr r), a') \<and> length r \<le> 280"
proof (cases "length text \<le> 280")
  case True
  then show ?thesis
    by (simp add: truncate_or_summarize_def TWITTER_CHAR_LIMIT_def)
next
  case False
  show ?thesis
  proof (cases rule: call_ai_model_cases [of w "summarize_prompt w (JStr text)" True a])
    case (none a')
    with False show ?thesis
      by (simp add: truncate_or_summarize_def TWITTER_CHAR_LIMIT_def)
  next
    case (some s a')
    with False show ?thesis
      by (simp add: truncate_or_summarize_def TWITTER_CHAR_LIMIT_def)
  qed
qed

text \<open>
  C2. On a string of more than 280 code points, when the resummarization call returns
  nothing or a string of more than 280 code points, the result is the first 277 code
  points of the input followed by three dots, 280 code points in all.
\<close>

theorem truncate_or_summarize_fallback:
  assumes "length text > 280"
    and "call_ai_model w (summarize_prompt w (JStr text)) True a = (r, a')"
    and "r = None \<or> (\<exists>s. r = Some s \<and> length s > 280)"
  shows "truncate_or_summarize w (JStr text) a = (Inr (JStr (take 277 text @ lit ''...'')), a')
         \<and> length (take 277 text @ lit ''...'') = 280"
  using assms
  by (auto simp add: truncate_or_summarize_def TWITTER_CHAR_LIMIT_def)

theorem truncate_or_summarize_fallback_witness:
  "length (replicate 281 (65::nat)) > 280
   \<and> call_ai_model offline (summarize_prompt offline (JStr (replicate 281 65))) True
        (init no_config no_secrets)
      = (None, (init no_config no_secrets)
           \<lparr>ai_requests := [(summarize_prompt offline (JStr (replicate 281 65)), True)]\<rparr>)
   \<and> truncate_or_summarize offline (JStr (replicate 281 65)) (init no_config no_secrets)
      = (Inr (JStr (replicate 277 65 @ lit ''...'')),
         (init no_config no_secrets)
           \<lparr>ai_requests := [(summarize_prompt offline (JStr (replicate 281 65)), True)]\<rparr>)
   \<and> length (replicate 277 (65::nat) @ lit ''...'') = 280"
proof -
  have len: "length (replicate 281 (65::nat)) > 280"
    by simp
  have call: "call_ai_model offline (summarize_prompt offline (JStr (replicate 281 65))) True
        (init no_config no_secrets)
      = (None, (init no_config no_secrets)
           \<lparr>ai_requests := [(summarize_prompt offline (JStr (replicate 281 65)), True)]\<rparr>)"
    by (simp add: call_ai_model_def offline_def init_def)
  show ?thesis
    using truncate_or_summarize_fallback [OF len call] len call
    by simp
qed

text \<open>
  C9. A string of at most 280 code points is returned unchanged, with no call to the AI
  service (the agent is returned as it was); enforcing the result again therefore
  returns it unchanged as well.
\<close>

theorem truncate_or_summarize_identity:
  assumes "length t \<le> 280"
  shows "truncate_or_summarize w (JStr t) a = (Inr (JStr t), a)"
  using assms
  by (simp add: truncate_or_summarize_def TWITTER_CHAR_LIMIT_def)

theorem truncate_or_summarize_identity_witness:
  "length (lit ''Hello'') \<le> 280
   \<and> truncate_or_summarize offline (JStr (lit ''Hello'')) (init no_config no_secrets)
      = (Inr (JStr (lit ''Hello'')), init no_config no_secrets)"
proof -
  have len: "length (lit ''Hello'') \<le> 280"
    by simp
  show ?thesis
    using truncate_or_summarize_identity [OF len] len
    by simp
qed

section \<open>Auxiliary facts\<close>

lemma bind_exn_Inr_iff: "bind_exn x f = Inr y \<longleftrightarrow> (\<exists>v. x = Inr v \<and> f v = Inr y)"
  by (cases x) auto

lemma dropWhile_hd: "xs \<noteq> [] \<Longrightarrow> \<not> P (hd xs) \<Longrightarrow> dropWhile P xs = xs"
  by (cases xs) auto

lemma strip_where_id: "s \<noteq> [] \<Longrightarrow> \<not> P (hd s) \<Longrightarrow> \<not> P (last s) \<Longrightarrow> strip_where P s = s"
  by (simp add: strip_where_def dropWhile_hd hd_rev)

lemma str_remove_absent: "c \<notin> set s \<Longrightarrow> str_remove (c # old) s = s"
  by (induction s) auto

lemma lit_backtick: "lit ''```json'' = 96 # lit ''``json''" "lit ''```'' = 96 # lit ''``''"
  by (simp_all add: lit_def)

lemma call_ai_model_agent:
  "snd (call_ai_model w p skip a) = a\<lparr>ai_requests := ai_requests a @ [(p, skip)]\<rparr>"
  by (simp add: call_ai_model_def Let_def split: sum.splits option.splits)

lemma candidate_text_gemini_body: "candidate_text (gemini_body s) = Inr (Some (py_strip s))"
  by (simp add: candidate_text_def gemini_body_def lit_def)

lemma call_ai_model_gemini_body:
  "gemini_generate w p = Inr (gemini_body s) \<Longrightarrow>
   call_ai_model w p skip a =
     (Some (if skip then py_strip s
            else str_remove (lit ''```'') (str_remove (lit ''```json'') (py_strip s))),
      a\<lparr>ai_requests := ai_requests a @ [(p, skip)]\<rparr>)"
  by (simp add: call_ai_model_def candidate_text_gemini_body)

lemma hello_strip: "py_strip hello_reply = hello_reply"
  unfolding py_strip_def
  by (rule strip_where_id) (simp_all add: hello_reply_def lit_def is_space_def)

lemma hello_no_backtick: "96 \<notin> set hello_reply"
  by (simp add: hello_reply_def lit_def)

lemma hello_clean:
  "str_remove (lit ''```'') (str_remove (lit ''```json'') (py_strip hello_reply)) = hello_reply"
  by (simp add: hello_strip lit_backtick str_remove_absent hello_no_backtick)

lemma hello_nonempty: "hello_reply \<noteq> []"
  by (simp add: hello_reply_def lit_def)

lemma call_ai_model_online:
  "call_ai_model (online news hello_reply parsed) p False a =
     (Some hello_reply, a\<lparr>ai_requests := ai_requests a @ [(p, False)]\<rparr>)"
  using call_ai_model_gemini_body [of "online news hello_reply parsed" p hello_reply False a]
  by (simp add: online_def offline_def hello_clean)

section \<open>The action selector\<close>

text \<open>
  C3. The action is \<open>reply\<close> under \<open>reply_only\<close>; under \<open>strategic_mix\<close> it is \<open>reply\<close>
  exactly when the draw is below 0.40 and \<open>post\<close> otherwise; under every other mode it is
  \<open>post\<close>. Once the browser has started and logged in, the cycle replies or posts as
  this choice says, on the configured mode and one draw.
\<close>

theorem action_type_policy:
  "action_type (lit ''reply_only'') draw = lit ''reply''
   \<and> action_type (lit ''strategic_mix'') draw = (if draw < 0.40 then lit ''reply'' else lit ''post'')
   \<and> lit ''reply'' \<noteq> lit ''post''
   \<and> (mode \<noteq> lit ''strategic_mix'' \<and> mode \<noteq> lit ''reply_only''
        \<longrightarrow> action_type mode draw = lit ''post'')
   \<and> (webdriver_starts w \<and> login_succeeds w
        \<longrightarrow> run_action_cycle w a
            = (let chosen = (case action_mode (config a) of
                               None \<Rightarrow> lit ''strategic_mix''
                             | Some m \<Rightarrow> m)
               in if action_type chosen (random_random w) = lit ''reply''
                  then perform_reply_action w (a\<lparr>driver := True\<rparr>)
                  else perform_post_action w chosen (a\<lparr>driver := True\<rparr>)))"
proof -
  have policy: "action_type (lit ''reply_only'') draw = lit ''reply''
   \<and> action_type (lit ''strategic_mix'') draw = (if draw < 0.40 then lit ''reply'' else lit ''post'')
   \<and> lit ''reply'' \<noteq> lit ''post''
   \<and> (mode \<noteq> lit ''strategic_mix'' \<and> mode \<noteq> lit ''reply_only''
        \<longrightarrow> action_type mode draw = lit ''post'')"
    by (simp add: action_type_def lit_def)
  have cycle: "webdriver_starts w \<and> login_succeeds w
        \<longrightarrow> run_action_cycle w a
            = (let chosen = (case action_mode (config a) of
                               None \<Rightarrow> lit ''strategic_mix''
                             | Some m \<Rightarrow> m)
               in if action_type chosen (random_random w) = lit ''reply''
                  then perform_reply_action w (a\<lparr>driver := True\<rparr>)
                  else perform_post_action w chosen (a\<lparr>driver := True\<rparr>))"
    by (simp add: run_action_cycle_def Let_def)
  from policy cycle show ?thesis
    by simp
qed

theorem action_type_policy_witness:
  "lit ''post_only_news'' \<noteq> lit ''strategic_mix''
   \<and> lit ''post_only_news'' \<noteq> lit ''reply_only''
   \<and> action_type (lit ''post_only_news'') 0.1 = lit ''post''
   \<and> action_type (lit ''strategic_mix'') 0.39 = lit ''reply''
   \<and> action_type (lit ''strategic_mix'') 0.40 = lit ''post''
   \<and> action_type (lit ''reply_only'') 0.99 = lit ''reply''
   \<and> webdriver_starts quiet \<and> login_succeeds quiet
   \<and> run_action_cycle quiet (init news_config all_secrets)
       = perform_post_action quiet (lit ''post_only_news'')
           ((init news_config all_secrets)\<lparr>driver := True\<rparr>)"
proof -
  have m: "lit ''post_only_news'' \<noteq> lit ''strategic_mix''" "lit ''post_only_news'' \<noteq> lit ''reply_only''"
    by (simp_all add: lit_def)
  have up: "webdriver_starts quiet \<and> login_succeeds quiet"
    by (simp add: quiet_def offline_def)
  have chosen: "action_mode (config (init news_config all_secrets)) = Some (lit ''post_only_news'')"
    by (simp add: init_def news_config_def)
  have post: "action_type (lit ''post_only_news'') draw = lit ''post''" for draw
    using m action_type_policy [where mode = "lit ''post_only_news''"] by blast
  have differ: "lit ''post'' \<noteq> lit ''reply''"
    using action_type_policy by metis
  have cycle: "run_action_cycle quiet (init news_config all_secrets)
       = perform_post_action quiet (lit ''post_only_news'')
           ((init news_config all_secrets)\<lparr>driver := True\<rparr>)"
    using action_type_policy [where w = quiet and a = "init news_config all_secrets"] up
    by (simp add: chosen post differ)
  show ?thesis
    using m up cycle post [of "0.1"] action_type_policy [where draw = "0.39"]
      action_type_policy [where draw = "0.40"] action_type_policy [where draw = "0.99"]
    by simp
qed

section \<open>The news strategy\<close>

lemma news_headline_Some:
  assumes "news_headline w api_data = Inr (Some h)"
  shows "dict_get api_data (lit ''status'') = Inr (JStr (lit ''ok''))
     \<and> (\<exists>xs. dict_get api_data (lit ''articles'') = Inr (JArr xs) \<and> xs \<noteq> []
           \<and> dict_get (xs ! (choice_article w mod length xs)) (lit ''title'') = Inr h)
     \<and> truthy h"
proof -
  obtain kvs where obj: "api_data = JObj kvs"
    using assms by (cases api_data) (simp_all add: news_headline_def)
  have st: "dict_get api_data (lit ''status'') = Inr (JStr (lit ''ok''))"
    using assms obj by (simp add: news_headline_def split: if_splits)
  obtain arts where arts: "map_of kvs (lit ''articles'') = Some arts" "truthy arts"
    using assms obj st
    by (cases "map_of kvs (lit ''articles'')") (simp_all add: news_headline_def split: if_splits)
  have rest: "bind_exn (random_choice (choice_article w) arts) (\<lambda>chosen.
             bind_exn (dict_get chosen (lit ''title'')) (\<lambda>headline.
               if \<not> truthy headline then Inr None else Inr (Some headline))) = Inr (Some h)"
    using assms obj st arts by (simp add: news_headline_def split: if_splits)
  then obtain xs where xs: "arts = JArr xs" "xs \<noteq> []"
    by (cases arts) (auto split: if_splits)
  from rest xs have "bind_exn (dict_get (xs ! (choice_article w mod length xs)) (lit ''title''))
       (\<lambda>headline. if \<not> truthy headline then Inr None else Inr (Some headline)) = Inr (Some h)"
    by simp
  then have "dict_get (xs ! (choice_article w mod length xs)) (lit ''title'') = Inr h \<and> truthy h"
    by (cases "dict_get (xs ! (choice_article w mod length xs)) (lit ''title'')")
       (auto split: if_splits)
  with st obj arts xs show ?thesis by simp
qed

lemma news_none:
  assumes "NEWSAPI_KEY (secrets a) = Some k"
    and "\<And>h. bind_exn (newsapi_everything w (news_params a k)) (news_headline w) \<noteq> Inr (Some h)"
  shows "generate_from_news_article w a = (Inr None, a)"
proof -
  let ?h = "bind_exn (newsapi_everything w (news_params a k)) (news_headline w)"
  consider (exn) e where "?h = Inl e" | (none) "?h = Inr None"
    using assms(2) by (cases ?h) auto
  then show ?thesis
  proof cases
    case exn
    with assms(1) show ?thesis
      by (simp add: generate_from_news_article_def except_Exception_def)
  next
    case none
    with assms(1) show ?thesis
      by (simp add: generate_from_news_article_def except_Exception_def)
  qed
qed

lemma news_some:
  assumes "fst (generate_from_news_article w a) = Inr (Some pkg)"
  shows "\<exists>k. NEWSAPI_KEY (secrets a) = Some k \<and> k \<noteq> [] \<and>
           bind_exn (newsapi_everything w (news_params a k)) (news_headline w)
           = Inr (Some (query_for_image pkg))"
proof -
  obtain k where k: "NEWSAPI_KEY (secrets a) = Some k"
    using assms by (cases "NEWSAPI_KEY (secrets a)") (simp_all add: generate_from_news_article_def)
  have ne: "k \<noteq> []"
    using assms k by (auto simp add: generate_from_news_article_def)
  let ?h = "bind_exn (newsapi_everything w (news_params a k)) (news_headline w)"
  obtain h where h: "?h = Inr (Some h)"
    using news_none [OF k, of w] assms by fastforce
  have "query_for_image pkg = h"
    using assms k ne h
    by (auto simp add: generate_from_news_article_def Let_def except_Exception_def
             bind_exn_Inr_iff [of "dict_get p t" for p t]
             split: prod.splits if_splits option.splits sum.splits)
  with k ne h show ?thesis by simp
qed

lemma news_produce:
  assumes "NEWSAPI_KEY (secrets a) = Some k" and "k \<noteq> []"
    and "bind_exn (newsapi_everything w (news_params a k)) (news_headline w) = Inr (Some h)"
    and "call_ai_model w
           (create_master_prompt a (news_task w h) (tone (config a)) (niche (config a)) False)
           False a = (Some s, a')"
    and "s \<noteq> []" and "json_loads w s = Some parsed"
    and "dict_get parsed (lit ''tweet_text'') = Inr t"
  shows "generate_from_news_article w a = (Inr (Some \<lparr>pkg_text = t, query_for_image = h\<rparr>), a')"
  using assms
  by (simp add: generate_from_news_article_def Let_def except_Exception_def no_response_def)

lemma nasa_headline:
  "news_headline w (news_of (JArr [JObj [(lit ''title'', JStr t)]]))
     = (if t = [] then Inr None else Inr (Some (JStr t)))"
  by (simp add: news_headline_def news_of_def lit_def)

text \<open>
  C4. With a provider key and a provider response \<open>api_data\<close>: the strategy returns nothing
  when the status is not \<open>ok\<close>, when the article list is empty, and when the chosen
  article's headline is empty; a package it produces has the chosen article's headline as
  its \<open>query_for_image\<close>; and for the single article titled \<open>NASA announces new mission\<close>
  the query is that title, the package being produced as soon as the AI response decodes
  to a JSON object.
\<close>

theorem news_article_query_is_headline:
  assumes "NEWSAPI_KEY (secrets a) = Some k"
    and "newsapi_everything w (news_params a k) = Inr api_data"
  shows
    "(dict_get api_data (lit ''status'') \<noteq> Inr (JStr (lit ''ok''))
        \<longrightarrow> generate_from_news_article w a = (Inr None, a))
     \<and> (\<forall>listed. dict_get api_data (lit ''articles'') = Inr listed \<and> \<not> truthy listed
        \<longrightarrow> generate_from_news_article w a = (Inr None, a))
     \<and> (\<forall>xs h. dict_get api_data (lit ''articles'') = Inr (JArr xs)
          \<and> dict_get (xs ! (choice_article w mod length xs)) (lit ''title'') = Inr h
          \<and> \<not> truthy h
        \<longrightarrow> generate_from_news_article w a = (Inr None, a))
     \<and> (\<forall>pkg. fst (generate_from_news_article w a) = Inr (Some pkg)
        \<longrightarrow> (\<exists>xs. dict_get api_data (lit ''articles'') = Inr (JArr xs) \<and> xs \<noteq> []
              \<and> dict_get (xs ! (choice_article w mod length xs)) (lit ''title'')
                  = Inr (query_for_image pkg)))
     \<and> (\<forall>pkg. api_data = news_of (JArr [JObj [(lit ''title'', JStr (lit ''NASA announces new mission''))]])
          \<and> fst (generate_from_news_article w a) = Inr (Some pkg)
        \<longrightarrow> query_for_image pkg = JStr (lit ''NASA announces new mission''))
     \<and> (\<forall>s a' parsed t.
          api_data = news_of (JArr [JObj [(lit ''title'', JStr (lit ''NASA announces new mission''))]])
          \<and> k \<noteq> []
          \<and> call_ai_model w
               (create_master_prompt a (news_task w (JStr (lit ''NASA announces new mission'')))
                  (tone (config a)) (niche (config a)) False) False a = (Some s, a')
          \<and> s \<noteq> [] \<and> json_loads w s = Some parsed
          \<and> dict_get parsed (lit ''tweet_text'') = Inr t
        \<longrightarrow> generate_from_news_article w a
              = (Inr (Some \<lparr>pkg_text = t,
                            query_for_image = JStr (lit ''NASA announces new mission'')\<rparr>), a'))"
proof -
  let ?g = "generate_from_news_article w a"
  have hd: "bind_exn (newsapi_everything w (news_params a k)) (news_headline w)
              = news_headline w api_data"
    using assms(2) by simp
  have none: "?g = (Inr None, a)" if "\<And>h. news_headline w api_data \<noteq> Inr (Some h)"
    using news_none [OF assms(1), of w] that hd by simp
  have c1: "dict_get api_data (lit ''status'') \<noteq> Inr (JStr (lit ''ok'')) \<longrightarrow> ?g = (Inr None, a)"
    using none news_headline_Some [of w api_data] by blast
  have c2: "\<forall>listed. dict_get api_data (lit ''articles'') = Inr listed \<and> \<not> truthy listed
        \<longrightarrow> ?g = (Inr None, a)"
  proof (intro allI impI)
    fix listed
    assume l: "dict_get api_data (lit ''articles'') = Inr listed \<and> \<not> truthy listed"
    have "news_headline w api_data \<noteq> Inr (Some h)" for h
      using news_headline_Some [of w api_data h] l by auto
    then show "?g = (Inr None, a)" by (rule none)
  qed
  have c3: "\<forall>xs h. dict_get api_data (lit ''articles'') = Inr (JArr xs)
          \<and> dict_get (xs ! (choice_article w mod length xs)) (lit ''title'') = Inr h
          \<and> \<not> truthy h
        \<longrightarrow> ?g = (Inr None, a)"
  proof (intro allI impI)
    fix xs h
    assume l: "dict_get api_data (lit ''articles'') = Inr (JArr xs)
          \<and> dict_get (xs ! (choice_article w mod length xs)) (lit ''title'') = Inr h
          \<and> \<not> truthy h"
    have "news_headline w api_data \<noteq> Inr (Some h')" for h'
      using news_headline_Some [of w api_data h'] l by auto
    then show "?g = (Inr None, a)" by (rule none)
  qed
  have some: "news_headline w api_data = Inr (Some (query_for_image pkg))"
    if "fst ?g = Inr (Some pkg)" for pkg
    using news_some [OF that] assms hd by auto
  have c4: "\<forall>pkg. fst ?g = Inr (Some pkg)
        \<longrightarrow> (\<exists>xs. dict_get api_data (lit ''articles'') = Inr (JArr xs) \<and> xs \<noteq> []
              \<and> dict_get (xs ! (choice_article w mod length xs)) (lit ''title'')
                  = Inr (query_for_image pkg))"
    using some news_headline_Some [of w api_data] by blast
  have c5: "\<forall>pkg. api_data = news_of (JArr [JObj [(lit ''title'', JStr (lit ''NASA announces new mission''))]])
          \<and> fst ?g = Inr (Some pkg)
        \<longrightarrow> query_for_image pkg = JStr (lit ''NASA announces new mission'')"
  proof (intro allI impI)
    fix pkg
    assume l: "api_data = news_of (JArr [JObj [(lit ''title'', JStr (lit ''NASA announces new mission''))]])
          \<and> fst ?g = Inr (Some pkg)"
    then have "news_headline w (news_of (JArr [JObj [(lit ''title'', JStr (lit ''NASA announces new mission''))]]))
       = Inr (Some (query_for_image pkg))"
      using some by auto
    then show "query_for_image pkg = JStr (lit ''NASA announces new mission'')"
      by (simp add: nasa_headline split: if_splits)
  qed
  have c6: "\<forall>s a' parsed t.
          api_data = news_of (JArr [JObj [(lit ''title'', JStr (lit ''NASA announces new mission''))]])
          \<and> k \<noteq> []
          \<and> call_ai_model w
               (create_master_prompt a (news_task w (JStr (lit ''NASA announces new mission'')))
                  (tone (config a)) (niche (config a)) False) False a = (Some s, a')
          \<and> s \<noteq> [] \<and> json_loads w s = Some parsed
          \<and> dict_get parsed (lit ''tweet_text'') = Inr t
        \<longrightarrow> ?g = (Inr (Some \<lparr>pkg_text = t,
                            query_for_image = JStr (lit ''NASA announces new mission'')\<rparr>), a')"
  proof (intro allI impI)
    fix s a' parsed t
    assume l: "api_data = news_of (JArr [JObj [(lit ''title'', JStr (lit ''NASA announces new mission''))]])
          \<and> k \<noteq> []
          \<and> call_ai_model w
               (create_master_prompt a (news_task w (JStr (lit ''NASA announces new mission'')))
                  (tone (config a)) (niche (config a)) False) False a = (Some s, a')
          \<and> s \<noteq> [] \<and> json_loads w s = Some parsed
          \<and> dict_get parsed (lit ''tweet_text'') = Inr t"
    have nz: "lit ''NASA announces new mission'' \<noteq> []"
      by (simp add: lit_def)
    have h: "bind_exn (newsapi_everything w (news_params a k)) (news_headline w)
               = Inr (Some (JStr (lit ''NASA announces new mission'')))"
      using hd l nz by (simp add: nasa_headline)
    show "?g = (Inr (Some \<lparr>pkg_text = t,
                            query_for_image = JStr (lit ''NASA announces new mission'')\<rparr>), a')"
      using news_produce [OF assms(1) _ h] l by blast
  qed
  from c1 c2 c3 c4 c5 c6 show ?thesis by blast
qed


theorem news_article_query_is_headline_witness:
  "NEWSAPI_KEY (secrets (init news_config all_secrets)) = Some (lit ''news-key'')
   \<and> newsapi_everything
        (online (news_of (JArr [JObj [(lit ''title'', JStr (lit ''NASA announces new mission''))]]))
           hello_reply hello_parsed)
        (news_params (init news_config all_secrets) (lit ''news-key''))
      = Inr (news_of (JArr [JObj [(lit ''title'', JStr (lit ''NASA announces new mission''))]]))
   \<and> fst (generate_from_news_article
        (online (news_of (JArr [JObj [(lit ''title'', JStr (lit ''NASA announces new mission''))]]))
           hello_reply hello_parsed)
        (init news_config all_secrets))
      = Inr (Some \<lparr>pkg_text = JStr (lit ''Hello''),
                   query_for_image = JStr (lit ''NASA announces new mission'')\<rparr>)
   \<and> generate_from_news_article
        (online (JObj [(lit ''status'', JStr (lit ''error''))]) hello_reply hello_parsed)
        (init news_config all_secrets)
      = (Inr None, init news_config all_secrets)
   \<and> generate_from_news_article
        (online (news_of (JArr [])) hello_reply hello_parsed) (init news_config all_secrets)
      = (Inr None, init news_config all_secrets)
   \<and> generate_from_news_article
        (online (news_of (JArr [JObj [(lit ''title'', JStr [])]])) hello_reply hello_parsed)
        (init news_config all_secrets)
      = (Inr None, init news_config all_secrets)"
proof -
  let ?a = "init news_config all_secrets"
  let ?nasa = "news_of (JArr [JObj [(lit ''title'', JStr (lit ''NASA announces new mission''))]])"
  have key: "NEWSAPI_KEY (secrets ?a) = Some (lit ''news-key'')"
    by (simp add: init_def all_secrets_def)
  have ne: "lit ''news-key'' \<noteq> []"
    by (simp add: lit_def)
  have resp: "newsapi_everything (online news hello_reply hello_parsed)
                (news_params ?a (lit ''news-key'')) = Inr news" for news
    by (simp add: online_def offline_def)
  have loads: "json_loads (online news hello_reply hello_parsed) hello_reply = Some hello_parsed"
    for news
    by (simp add: online_def offline_def)
  have tweet: "dict_get hello_parsed (lit ''tweet_text'') = Inr (JStr (lit ''Hello''))"
    by (simp add: hello_parsed_def lit_def)
  have produced: "generate_from_news_article (online ?nasa hello_reply hello_parsed) ?a
      = (Inr (Some \<lparr>pkg_text = JStr (lit ''Hello''),
                    query_for_image = JStr (lit ''NASA announces new mission'')\<rparr>),
         ?a\<lparr>ai_requests := ai_requests ?a @
            [(create_master_prompt ?a
                (news_task (online ?nasa hello_reply hello_parsed)
                   (JStr (lit ''NASA announces new mission'')))
                (tone (config ?a)) (niche (config ?a)) False, False)]\<rparr>)"
    using news_article_query_is_headline [OF key resp [of ?nasa]] ne
      call_ai_model_online [of ?nasa hello_parsed _ ?a] hello_nonempty loads [of ?nasa] tweet
    by blast
  have st: "dict_get (JObj [(lit ''status'', JStr (lit ''error''))]) (lit ''status'')
              \<noteq> Inr (JStr (lit ''ok''))"
    by (simp add: lit_def)
  have failed: "generate_from_news_article
        (online (JObj [(lit ''status'', JStr (lit ''error''))]) hello_reply hello_parsed) ?a
      = (Inr None, ?a)"
    using news_article_query_is_headline
      [OF key resp [of "JObj [(lit ''status'', JStr (lit ''error''))]"]] st
    by blast
  have el: "dict_get (news_of (JArr [])) (lit ''articles'') = Inr (JArr []) \<and> \<not> truthy (JArr [])"
    by (simp add: news_of_def lit_def)
  have empty: "generate_from_news_article (online (news_of (JArr [])) hello_reply hello_parsed) ?a
      = (Inr None, ?a)"
    using news_article_query_is_headline [OF key resp [of "news_of (JArr [])"]] el
    by blast
  have ut: "dict_get (news_of (JArr [JObj [(lit ''title'', JStr [])]])) (lit ''articles'')
              = Inr (JArr [JObj [(lit ''title'', JStr [])]])
            \<and> dict_get ([JObj [(lit ''title'', JStr [])]] !
                 (choice_article (online (news_of (JArr [JObj [(lit ''title'', JStr [])]]))
                     hello_reply hello_parsed) mod length [JObj [(lit ''title'', JStr [])]]))
                 (lit ''title'') = Inr (JStr [])
            \<and> \<not> truthy (JStr [])"
    by (simp add: news_of_def lit_def)
  have untitled: "generate_from_news_article
        (online (news_of (JArr [JObj [(lit ''title'', JStr [])]])) hello_reply hello_parsed) ?a
      = (Inr None, ?a)"
    using news_article_query_is_headline
      [OF key resp [of "news_of (JArr [JObj [(lit ''title'', JStr [])]])"]] ut
    by blast
  from key resp [of ?nasa] produced failed empty untitled show ?thesis
    by simp
qed


section \<open>The trend strategy\<close>

lemma call_ai_model_online_reply:
  assumes "reply \<noteq> []" and "\<not> is_space (hd reply)" and "\<not> is_space (last reply)"
    and "96 \<notin> set reply"
  shows "call_ai_model (online news reply parsed) p False a =
     (Some reply, a\<lparr>ai_requests := ai_requests a @ [(p, False)]\<rparr>)"
proof -
  have "py_strip reply = reply"
    using assms by (simp add: py_strip_def strip_where_id)
  then show ?thesis
    using call_ai_model_gemini_body [of "online news reply parsed" p reply False a] assms(4)
    by (simp add: online_def offline_def lit_backtick str_remove_absent)
qed

lemma trends_some:
  assumes "fst (analyze_and_generate_from_global_trends w a) = Inr (Some pkg)"
  shows "\<exists>elems s a' parsed analysis.
           driver a \<and> trending_page w = Inr elems \<and> filter (\<lambda>t. t \<noteq> []) elems \<noteq> []
         \<and> call_ai_model w
             (create_master_prompt a (trends_task (filter (\<lambda>t. t \<noteq> []) elems)) (tone (config a))
                (Some (lit ''Current Events'')) False) False a = (Some s, a')
         \<and> s \<noteq> [] \<and> json_loads w s = Some parsed
         \<and> dict_get parsed (lit ''tweet_text'') = Inr (pkg_text pkg)
         \<and> dict_get parsed (lit ''analysis'') = Inr analysis
         \<and> query_for_image pkg = (if truthy analysis then analysis else pkg_text pkg)"
proof -
  have d: "driver a"
    using assms
    by (cases "driver a") (simp_all add: analyze_and_generate_from_global_trends_def except_Exception_def)
  obtain elems where e: "trending_page w = Inr elems"
    using assms d
    by (cases "trending_page w")
       (simp_all add: analyze_and_generate_from_global_trends_def except_Exception_def)
  let ?ts = "filter (\<lambda>t. t \<noteq> []) elems"
  have ne: "?ts \<noteq> []"
    using assms d e
    by (auto simp add: analyze_and_generate_from_global_trends_def except_Exception_def Let_def)
  let ?p = "create_master_prompt a (trends_task ?ts) (tone (config a))
                (Some (lit ''Current Events'')) False"
  obtain r a' where c: "call_ai_model w ?p False a = (r, a')"
    by (cases "call_ai_model w ?p False a")
  have body: "(if no_response r then (Inr None, a')
               else (case json_loads w (the r) of
                       None \<Rightarrow> (Inl JSONDecodeError, a')
                     | Some parsed \<Rightarrow>
                         (bind_exn (dict_get parsed (lit ''tweet_text'')) (\<lambda>text.
                          bind_exn (dict_get parsed (lit ''analysis'')) (\<lambda>analysis.
                            Inr (Some \<lparr>pkg_text = text,
                                       query_for_image =
                                         (if truthy analysis then analysis else text)\<rparr>))),
                          a')))
              = (Inr (Some pkg), snd (analyze_and_generate_from_global_trends w a))"
    using assms d e ne c
    by (auto simp add: analyze_and_generate_from_global_trends_def except_Exception_def Let_def
             split: if_splits option.splits sum.splits)
  then obtain s where s: "r = Some s" "s \<noteq> []"
    by (cases r) (auto simp add: no_response_def split: if_splits)
  with body obtain parsed where p: "json_loads w s = Some parsed"
    by (cases "json_loads w s") (auto simp add: no_response_def)
  with body s have "bind_exn (dict_get parsed (lit ''tweet_text'')) (\<lambda>text.
                          bind_exn (dict_get parsed (lit ''analysis'')) (\<lambda>analysis.
                            Inr (Some \<lparr>pkg_text = text,
                                       query_for_image =
                                         (if truthy analysis then analysis else text)\<rparr>)))
             = Inr (Some pkg)"
    by (simp add: no_response_def)
  then obtain body_text analysis where
    "dict_get parsed (lit ''tweet_text'') = Inr body_text"
    "dict_get parsed (lit ''analysis'') = Inr analysis"
    "pkg = \<lparr>pkg_text = body_text, query_for_image = (if truthy analysis then analysis else body_text)\<rparr>"
    by (auto simp add: bind_exn_Inr_iff)
  with d e ne c s p show ?thesis
    by auto
qed


lemma trends_produce:
  assumes "driver a" and "trending_page w = Inr elems" and "filter (\<lambda>t. t \<noteq> []) elems \<noteq> []"
    and "call_ai_model w
           (create_master_prompt a (trends_task (filter (\<lambda>t. t \<noteq> []) elems)) (tone (config a))
              (Some (lit ''Current Events'')) False) False a = (Some s, a')"
    and "s \<noteq> []" and "json_loads w s = Some parsed"
    and "dict_get parsed (lit ''tweet_text'') = Inr t"
    and "dict_get parsed (lit ''analysis'') = Inr analysis"
  shows "analyze_and_generate_from_global_trends w a
           = (Inr (Some \<lparr>pkg_text = t,
                         query_for_image = (if truthy analysis then analysis else t)\<rparr>), a')"
  using assms
  by (simp add: analyze_and_generate_from_global_trends_def Let_def except_Exception_def
        no_response_def)

lemma online_trends:
  assumes "reply \<noteq> []" and "\<not> is_space (hd reply)" and "\<not> is_space (last reply)"
    and "96 \<notin> set reply"
    and "dict_get parsed (lit ''tweet_text'') = Inr t"
    and "dict_get parsed (lit ''analysis'') = Inr analysis"
  shows "fst (analyze_and_generate_from_global_trends (online news reply parsed) (logged_in cfg))
           = Inr (Some \<lparr>pkg_text = t,
                        query_for_image = (if truthy analysis then analysis else t)\<rparr>)"
proof -
  let ?w = "online news reply parsed"
  have d: "driver (logged_in cfg)"
    by (simp add: logged_in_def)
  have e: "trending_page ?w = Inr [lit ''#AI'']"
    by (simp add: online_def offline_def)
  have ne: "filter (\<lambda>t. t \<noteq> []) [lit ''#AI''] \<noteq> []"
    by (simp add: lit_def)
  have l: "json_loads ?w reply = Some parsed"
    by (simp add: online_def offline_def)
  show ?thesis
    using trends_produce [OF d e ne call_ai_model_online_reply [OF assms(1-4)] assms(1) l assms(5,6)]
    by simp
qed

lemma blank_reply_shape:
  "blank_reply \<noteq> []" "\<not> is_space (hd blank_reply)" "\<not> is_space (last blank_reply)"
  "96 \<notin> set blank_reply"
  by (simp_all add: blank_reply_def lit_def is_space_def)

lemma analysis_reply_shape:
  "analysis_reply \<noteq> []" "\<not> is_space (hd analysis_reply)" "\<not> is_space (last analysis_reply)"
  "96 \<notin> set analysis_reply"
  by (simp_all add: analysis_reply_def lit_def is_space_def)

text \<open>
  C5, as stated, fails: the AI response \<open>{"analysis": ""}\<close> decodes, has no \<open>tweet_text\<close>,
  and gives a package whose \<open>query_for_image\<close> is \<open>None\<close>, not the analysis field \<open>""\<close>.
\<close>

theorem trends_query_counterexample:
  "fst (analyze_and_generate_from_global_trends (online JNull blank_reply blank_parsed)
          (logged_in no_config))
     = Inr (Some \<lparr>pkg_text = JNull, query_for_image = JNull\<rparr>)
   \<and> json_loads (online JNull blank_reply blank_parsed) blank_reply = Some blank_parsed
   \<and> dict_get blank_parsed (lit ''tweet_text'') = Inr JNull
   \<and> \<not> truthy JNull
   \<and> dict_get blank_parsed (lit ''analysis'') = Inr (JStr [])
   \<and> query_for_image \<lparr>pkg_text = JNull, query_for_image = JNull\<rparr> \<noteq> JStr []"
proof -
  have t: "dict_get blank_parsed (lit ''tweet_text'') = Inr JNull"
    by (simp add: blank_parsed_def lit_def)
  have an: "dict_get blank_parsed (lit ''analysis'') = Inr (JStr [])"
    by (simp add: blank_parsed_def)
  have l: "json_loads (online JNull blank_reply blank_parsed) blank_reply = Some blank_parsed"
    by (simp add: online_def offline_def)
  show ?thesis
    using online_trends [OF blank_reply_shape t an, of JNull no_config] t an l
    by simp
qed

text \<open>
  C5, amended. A package the trend strategy produces comes from an AI response that
  decodes to an object; its \<open>query_for_image\<close> is the analysis field when that field is
  truthy and the \<open>tweet_text\<close> field otherwise. In particular, when the text is unavailable
  and the analysis is not empty, the query is the analysis.
\<close>

theorem trends_query_is_analysis_or_text:
  assumes "fst (analyze_and_generate_from_global_trends w a) = Inr (Some pkg)"
  shows "\<exists>elems s a' parsed analysis.
           trending_page w = Inr elems
         \<and> call_ai_model w
             (create_master_prompt a (trends_task (filter (\<lambda>t. t \<noteq> []) elems)) (tone (config a))
                (Some (lit ''Current Events'')) False) False a = (Some s, a')
         \<and> json_loads w s = Some parsed
         \<and> dict_get parsed (lit ''tweet_text'') = Inr (pkg_text pkg)
         \<and> dict_get parsed (lit ''analysis'') = Inr analysis
         \<and> query_for_image pkg = (if truthy analysis then analysis else pkg_text pkg)
         \<and> (\<not> truthy (pkg_text pkg) \<and> truthy analysis \<longrightarrow> query_for_image pkg = analysis)"
proof -
  obtain elems s a' parsed analysis where
    "trending_page w = Inr elems"
    "call_ai_model w
       (create_master_prompt a (trends_task (filter (\<lambda>t. t \<noteq> []) elems)) (tone (config a))
          (Some (lit ''Current Events'')) False) False a = (Some s, a')"
    "json_loads w s = Some parsed"
    "dict_get parsed (lit ''tweet_text'') = Inr (pkg_text pkg)"
    "dict_get parsed (lit ''analysis'') = Inr analysis"
    "query_for_image pkg = (if truthy analysis then analysis else pkg_text pkg)"
    using trends_some [OF assms] by blast
  then show ?thesis
    by (intro exI [of _ elems] exI [of _ s] exI [of _ a'] exI [of _ parsed] exI [of _ analysis])
       simp
qed

theorem trends_query_is_analysis_or_text_witness:
  "fst (analyze_and_generate_from_global_trends (online JNull analysis_reply analysis_parsed)
          (logged_in no_config))
     = Inr (Some \<lparr>pkg_text = JNull, query_for_image = JStr (lit ''AI boom'')\<rparr>)
   \<and> (\<exists>s parsed analysis.
         json_loads (online JNull analysis_reply analysis_parsed) s = Some parsed
       \<and> dict_get parsed (lit ''tweet_text'') = Inr JNull
       \<and> dict_get parsed (lit ''analysis'') = Inr analysis
       \<and> JStr (lit ''AI boom'') = (if truthy analysis then analysis else JNull))"
proof -
  have t: "dict_get analysis_parsed (lit ''tweet_text'') = Inr JNull"
    by (simp add: analysis_parsed_def lit_def)
  have an: "dict_get analysis_parsed (lit ''analysis'') = Inr (JStr (lit ''AI boom''))"
    by (simp add: analysis_parsed_def)
  have tr: "truthy (JStr (lit ''AI boom''))"
    by (simp add: lit_def)
  have produced: "fst (analyze_and_generate_from_global_trends
          (online JNull analysis_reply analysis_parsed) (logged_in no_config))
     = Inr (Some \<lparr>pkg_text = JNull, query_for_image = JStr (lit ''AI boom'')\<rparr>)"
    using online_trends [OF analysis_reply_shape t an, of JNull no_config] tr by simp
  obtain s parsed analysis where
    "json_loads (online JNull analysis_reply analysis_parsed) s = Some parsed"
    "dict_get parsed (lit ''tweet_text'')
       = Inr (pkg_text \<lparr>pkg_text = JNull, query_for_image = JStr (lit ''AI boom'')\<rparr>)"
    "dict_get parsed (lit ''analysis'') = Inr analysis"
    "query_for_image \<lparr>pkg_text = JNull, query_for_image = JStr (lit ''AI boom'')\<rparr>
       = (if truthy analysis then analysis
          else pkg_text \<lparr>pkg_text = JNull, query_for_image = JStr (lit ''AI boom'')\<rparr>)"
    using trends_query_is_analysis_or_text [OF produced] by blast
  then have "json_loads (online JNull analysis_reply analysis_parsed) s = Some parsed
       \<and> dict_get parsed (lit ''tweet_text'') = Inr JNull
       \<and> dict_get parsed (lit ''analysis'') = Inr analysis
       \<and> JStr (lit ''AI boom'') = (if truthy analysis then analysis else JNull)"
    by (cases "truthy analysis") simp_all
  then show ?thesis
    using produced by blast
qed

section \<open>The agent across calls\<close>

lemma create_master_prompt_history:
  "tweet_history a' = tweet_history a \<Longrightarrow>
   create_master_prompt a' task p n r = create_master_prompt a task p n r"
  by (simp add: create_master_prompt_def)

lemma evolves_refl: "evolves a a"
  by (simp add: evolves_def)

lemma evolves_trans:
  assumes "evolves a b" and "evolves b c"
  shows "evolves a c"
proof -
  obtain n1 where n1: "ai_requests b = ai_requests a @ n1"
    "\<forall>req \<in> set n1. snd req \<or> (\<exists>task p n r. fst req = create_master_prompt a task p n r)"
    using assms(1) unfolding evolves_def by blast
  obtain n2 where n2: "ai_requests c = ai_requests b @ n2"
    "\<forall>req \<in> set n2. snd req \<or> (\<exists>task p n r. fst req = create_master_prompt b task p n r)"
    using assms(2) unfolding evolves_def by blast
  have h: "tweet_history b = tweet_history a"
    using assms(1) by (simp add: evolves_def)
  have "\<forall>req \<in> set (n1 @ n2). snd req \<or> (\<exists>task p n r. fst req = create_master_prompt a task p n r)"
    using n1(2) n2(2) create_master_prompt_history [OF h] by auto
  moreover have "ai_requests c = ai_requests a @ (n1 @ n2)"
    using n1(1) n2(1) by simp
  ultimately show ?thesis
    using assms unfolding evolves_def by metis
qed

lemma evolves_request:
  "skip \<or> (\<exists>task p n r. prompt = create_master_prompt a task p n r) \<Longrightarrow>
   evolves a (a\<lparr>ai_requests := ai_requests a @ [(prompt, skip)]\<rparr>)"
  by (auto simp add: evolves_def)

lemma evolves_call:
  "skip \<or> (\<exists>task p n r. prompt = create_master_prompt a task p n r) \<Longrightarrow>
   evolves a (snd (call_ai_model w prompt skip a))"
  by (simp add: call_ai_model_agent evolves_request)

lemma evolves_driver: "evolves a (a\<lparr>driver := d\<rparr>)"
  by (simp add: evolves_def create_master_prompt_def)

lemma evolves_dispatches: "evolves a (a\<lparr>dispatches := d\<rparr>)"
  by (simp add: evolves_def create_master_prompt_def)

lemma snd_except_Exception: "snd (except_Exception r) = snd r"
  by (simp add: except_Exception_def split: prod.splits sum.splits)

lemma snd_after_call:
  "snd (case c of (r, a') \<Rightarrow>
         if cond r then (x, a') else (case l r of None \<Rightarrow> (y, a') | Some v \<Rightarrow> (f v, a')))
   = snd c"
  by (cases c) (simp split: option.splits)

lemma truncate_agent:
  "snd (truncate_or_summarize w txt a) = a \<or>
   snd (truncate_or_summarize w txt a) = snd (call_ai_model w (summarize_prompt w txt) True a)"
  by (cases "call_ai_model w (summarize_prompt w txt) True a")
     (auto simp add: truncate_or_summarize_def split: sum.splits)

lemma evolves_truncate: "evolves a (snd (truncate_or_summarize w txt a))"
  using truncate_agent [of w _ a] evolves_call [of True _ a w] evolves_refl [of a]
  by metis

lemma news_agent:
  "snd (generate_from_news_article w a) = a \<or>
   (\<exists>task. snd (generate_from_news_article w a) =
      snd (call_ai_model w (create_master_prompt a task (tone (config a)) (niche (config a)) False)
             False a))"
proof (cases "NEWSAPI_KEY (secrets a)")
  case None
  then show ?thesis by (simp add: generate_from_news_article_def)
next
  case (Some k)
  show ?thesis
  proof (cases "k = []")
    case True
    with Some show ?thesis by (simp add: generate_from_news_article_def)
  next
    case False
    let ?h = "bind_exn (newsapi_everything w (news_params a k)) (news_headline w)"
    consider (exn) e where "?h = Inl e" | (none) "?h = Inr None" | (some) h where "?h = Inr (Some h)"
      by (cases ?h) auto
    then show ?thesis
    proof cases
      case exn
      with Some False show ?thesis
        by (simp add: generate_from_news_article_def snd_except_Exception)
    next
      case none
      with Some False show ?thesis
        by (simp add: generate_from_news_article_def snd_except_Exception)
    next
      case (some h)
      with Some False have "snd (generate_from_news_article w a) =
        snd (call_ai_model w
               (create_master_prompt a (news_task w h) (tone (config a)) (niche (config a)) False)
               False a)"
        by (simp add: generate_from_news_article_def snd_except_Exception Let_def
              snd_after_call [where l = "\<lambda>r. json_loads w (the r)"])
      then show ?thesis by blast
    qed
  qed
qed

lemma trends_agent:
  "snd (analyze_and_generate_from_global_trends w a) = a \<or>
   (\<exists>task. snd (analyze_and_generate_from_global_trends w a) =
      snd (call_ai_model w
             (create_master_prompt a task (tone (config a)) (Some (lit ''Current Events'')) False)
             False a))"
proof (cases "if \<not> driver a then Inl AttributeError else trending_page w")
  case (Inl e)
  then show ?thesis
    by (simp add: analyze_and_generate_from_global_trends_def snd_except_Exception)
next
  case (Inr elems)
  show ?thesis
  proof (cases "filter (\<lambda>t. t \<noteq> []) elems = []")
    case True
    with Inr show ?thesis
      by (simp add: analyze_and_generate_from_global_trends_def snd_except_Exception)
  next
    case False
    with Inr have "snd (analyze_and_generate_from_global_trends w a) =
        snd (call_ai_model w
               (create_master_prompt a (trends_task (filter (\<lambda>t. t \<noteq> []) elems))
                  (tone (config a)) (Some (lit ''Current Events'')) False)
               False a)"
      by (simp add: analyze_and_generate_from_global_trends_def snd_except_Exception Let_def
            snd_after_call [where l = "\<lambda>r. json_loads w (the r)"])
    then show ?thesis by blast
  qed
qed

lemma word_agent:
  "snd (generate_from_word_file w a) = a \<or>
   (\<exists>task. snd (generate_from_word_file w a) =
      snd (call_ai_model w
             (create_master_prompt a task (tone (config a)) (Some (lit ''document analysis'')) False)
             False a))"
proof (cases "word_file_path (config a)")
  case None
  then show ?thesis by (simp add: generate_from_word_file_def)
next
  case (Some filepath)
  show ?thesis
  proof (cases "filepath = [] \<or> \<not> path_exists w filepath \<or> \<not> docx_available w")
    case True
    with Some show ?thesis
      by (auto simp add: generate_from_word_file_def snd_except_Exception)
  next
    case False
    show ?thesis
    proof (cases "docx_paragraphs w filepath")
      case (Inl e)
      with Some False show ?thesis
        by (simp add: generate_from_word_file_def snd_except_Exception)
    next
      case (Inr paragraphs)
      with Some False have "snd (generate_from_word_file w a) =
          snd (call_ai_model w
                 (create_master_prompt a (word_task paragraphs) (tone (config a))
                    (Some (lit ''document analysis'')) False)
                 False a)"
        by (simp add: generate_from_word_file_def snd_except_Exception Let_def
              snd_after_call [where l = "\<lambda>r. json_loads w (the r)"])
      then show ?thesis by blast
    qed
  qed
qed

lemma evolves_asked:
  assumes "a' = a \<or> (\<exists>task. a' = snd (call_ai_model w (create_master_prompt a task p n r) False a))"
  shows "evolves a a'"
proof -
  have "evolves a (snd (call_ai_model w (create_master_prompt a task p n r) False a))" for task
    by (rule evolves_call) blast
  with assms evolves_refl [of a] show ?thesis
    by auto
qed

lemma evolves_generation: "evolves a (snd (generation_function g w a))"
proof (cases g)
  case GlobalTrends
  then show ?thesis
    using trends_agent [of w a] by (simp add: evolves_asked)
next
  case NewsArticle
  then show ?thesis
    using news_agent [of w a] by (simp add: evolves_asked)
next
  case WordFile
  then show ?thesis
    using word_agent [of w a] by (simp add: evolves_asked)
qed

lemma truncate_str:
  "\<exists>e a'. truncate_or_summarize w (JStr t) a = (Inr (JStr e), a') \<and> length e \<le> 280"
proof (cases "length t \<le> 280")
  case True
  then show ?thesis
    by (simp add: truncate_or_summarize_def TWITTER_CHAR_LIMIT_def)
next
  case False
  show ?thesis
  proof (cases rule: call_ai_model_cases [of w "summarize_prompt w (JStr t)" True a])
    case (none a')
    with False show ?thesis
      by (simp add: truncate_or_summarize_def TWITTER_CHAR_LIMIT_def)
  next
    case (some s a')
    with False show ?thesis
      by (simp add: truncate_or_summarize_def TWITTER_CHAR_LIMIT_def)
  qed
qed

section \<open>The dispatch orchestrator and the required trailer\<close>

lemma config_generation: "config (snd (generation_function g w a)) = config a"
  using evolves_generation [of a g w] by (simp add: evolves_def)

lemma config_truncate: "config (snd (truncate_or_summarize w x a)) = config a"
  using evolves_truncate [of a w x] by (simp add: evolves_def)

lemma config_call: "config (snd (call_ai_model w p skip a)) = config a"
  by (simp add: call_ai_model_agent)

lemma append_required_text_str:
  "required_text (config a) = Some trailer \<Longrightarrow> trailer \<noteq> [] \<Longrightarrow>
   append_required_text w a (JStr e) = JStr (e @ nl @ nl @ trailer)"
  by (simp add: append_required_text_def py_str_def)

lemma post_dispatch:
  assumes "required_text (config a) = Some trailer" and "trailer \<noteq> []"
    and "get_generation_function a mode = Some g"
    and "generation_function g w a = (Inr (Some pkg), a1)"
    and "pkg_text pkg = JStr t" and "t \<noteq> []"
  shows "\<exists>enforced a2.
           truncate_or_summarize w (JStr t) a1 = (Inr (JStr enforced), a2)
         \<and> length enforced \<le> 280
         \<and> perform_post_action w mode a
             = (Inr (),
                post_tweet_in_browser (JStr (enforced @ nl @ nl @ trailer))
                  (if attach_image (config a)
                   then get_image_from_newsapi w a2 (query_for_image pkg) else None) a2)"
proof -
  obtain e a2 where e: "truncate_or_summarize w (JStr t) a1 = (Inr (JStr e), a2)" "length e \<le> 280"
    using truncate_str [of w t a1] by blast
  have c1: "config a1 = config a"
    using config_generation [of g w a] assms(4) by simp
  have c2: "config a2 = config a"
    using config_truncate [of w "JStr t" a1] e(1) c1 by simp
  have "append_required_text w a2 (JStr e) = JStr (e @ nl @ nl @ trailer)"
    using assms(1,2) c2 by (simp add: append_required_text_str)
  then have "perform_post_action w mode a
             = (Inr (),
                post_tweet_in_browser (JStr (e @ nl @ nl @ trailer))
                  (if attach_image (config a)
                   then get_image_from_newsapi w a2 (query_for_image pkg) else None) a2)"
    using assms(3-6) e(1) c2 by (simp add: perform_post_action_def)
  with e show ?thesis by blast
qed

lemma reply_dispatch:
  assumes "required_text (config a) = Some trailer" and "trailer \<noteq> []"
    and "find_tweet_to_engage_with w a = Inr (Some target)"
    and "call_ai_model w (create_engagement_prompt a target) False a = (Some s, a1)"
    and "s \<noteq> []" and "json_loads w s = Some parsed"
    and "dict_get parsed (lit ''tweet_text'') = Inr (JStr t)" and "t \<noteq> []"
  shows "\<exists>enforced a2.
           truncate_or_summarize w (JStr t) a1 = (Inr (JStr enforced), a2)
         \<and> length enforced \<le> 280
         \<and> perform_reply_action w a
             = (Inr (), reply_on_twitter (url target) (JStr (enforced @ nl @ nl @ trailer)) a2)"
proof -
  obtain e a2 where e: "truncate_or_summarize w (JStr t) a1 = (Inr (JStr e), a2)" "length e \<le> 280"
    using truncate_str [of w t a1] by blast
  have c1: "config a1 = config a"
    using config_call [of w "create_engagement_prompt a target" False a] assms(4) by simp
  have c2: "config a2 = config a"
    using config_truncate [of w "JStr t" a1] e(1) c1 by simp
  have "append_required_text w a2 (JStr e) = JStr (e @ nl @ nl @ trailer)"
    using assms(1,2) c2 by (simp add: append_required_text_str)
  then have "perform_reply_action w a
             = (Inr (), reply_on_twitter (url target) (JStr (e @ nl @ nl @ trailer)) a2)"
    using assms(3-8) e(1) by (simp add: perform_reply_action_def no_response_def)
  with e show ?thesis by blast
qed

text \<open>
  C6. With a non-empty required trailer configured, what is handed to the browser, for a
  post and for a reply alike, is the length-enforced text (at most 280 code points),
  two newlines and the trailer: the trailer is appended after enforcement and comes on
  top of the limit.
\<close>

theorem required_text_appended_after_enforcement:
  assumes "required_text (config a) = Some trailer" and "trailer \<noteq> []"
  shows
    "(\<forall>g pkg a1 t.
        get_generation_function a mode = Some g
        \<and> generation_function g w a = (Inr (Some pkg), a1)
        \<and> pkg_text pkg = JStr t \<and> t \<noteq> []
        \<longrightarrow> (\<exists>enforced a2.
               truncate_or_summarize w (JStr t) a1 = (Inr (JStr enforced), a2)
             \<and> length enforced \<le> 280
             \<and> perform_post_action w mode a
                 = (Inr (),
                    post_tweet_in_browser (JStr (enforced @ nl @ nl @ trailer))
                      (if attach_image (config a)
                       then get_image_from_newsapi w a2 (query_for_image pkg) else None) a2)))
     \<and> (\<forall>target s a1 parsed t.
        find_tweet_to_engage_with w a = Inr (Some target)
        \<and> call_ai_model w (create_engagement_prompt a target) False a = (Some s, a1)
        \<and> s \<noteq> [] \<and> json_loads w s = Some parsed
        \<and> dict_get parsed (lit ''tweet_text'') = Inr (JStr t) \<and> t \<noteq> []
        \<longrightarrow> (\<exists>enforced a2.
               truncate_or_summarize w (JStr t) a1 = (Inr (JStr enforced), a2)
             \<and> length enforced \<le> 280
             \<and> perform_reply_action w a
                 = (Inr (),
                    reply_on_twitter (url target) (JStr (enforced @ nl @ nl @ trailer)) a2)))
     \<and> append_required_text w a (JStr enforced) = JStr (enforced @ nl @ nl @ trailer)
     \<and> length (enforced @ nl @ nl @ trailer) = length enforced + 2 + length trailer"
proof -
  have post: "\<forall>g pkg a1 t.
        get_generation_function a mode = Some g
        \<and> generation_function g w a = (Inr (Some pkg), a1)
        \<and> pkg_text pkg = JStr t \<and> t \<noteq> []
        \<longrightarrow> (\<exists>enforced a2.
               truncate_or_summarize w (JStr t) a1 = (Inr (JStr enforced), a2)
             \<and> length enforced \<le> 280
             \<and> perform_post_action w mode a
                 = (Inr (),
                    post_tweet_in_browser (JStr (enforced @ nl @ nl @ trailer))
                      (if attach_image (config a)
                       then get_image_from_newsapi w a2 (query_for_image pkg) else None) a2))"
    using post_dispatch [OF assms] by blast
  have reply: "\<forall>target s a1 parsed t.
        find_tweet_to_engage_with w a = Inr (Some target)
        \<and> call_ai_model w (create_engagement_prompt a target) False a = (Some s, a1)
        \<and> s \<noteq> [] \<and> json_loads w s = Some parsed
        \<and> dict_get parsed (lit ''tweet_text'') = Inr (JStr t) \<and> t \<noteq> []
        \<longrightarrow> (\<exists>enforced a2.
               truncate_or_summarize w (JStr t) a1 = (Inr (JStr enforced), a2)
             \<and> length enforced \<le> 280
             \<and> perform_reply_action w a
                 = (Inr (),
                    reply_on_twitter (url target) (JStr (enforced @ nl @ nl @ trailer)) a2))"
    using reply_dispatch [OF assms] by blast
  have app: "append_required_text w a (JStr enforced) = JStr (enforced @ nl @ nl @ trailer)"
    using assms by (rule append_required_text_str)
  have len: "length (enforced @ nl @ nl @ trailer) = length enforced + 2 + length trailer"
    by (simp add: nl_def)
  from post reply app len show ?thesis by blast
qed

lemma online_news:
  assumes "reply \<noteq> []" and "\<not> is_space (hd reply)" and "\<not> is_space (last reply)"
    and "96 \<notin> set reply"
    and "dict_get parsed (lit ''tweet_text'') = Inr t"
    and "NEWSAPI_KEY (secrets a) = Some k" and "k \<noteq> []"
  shows "generate_from_news_article (online nasa_news reply parsed) a
           = (Inr (Some \<lparr>pkg_text = t,
                         query_for_image = JStr (lit ''NASA announces new mission'')\<rparr>),
              a\<lparr>ai_requests := ai_requests a @
                 [(create_master_prompt a
                     (news_task (online nasa_news reply parsed)
                        (JStr (lit ''NASA announces new mission'')))
                     (tone (config a)) (niche (config a)) False, False)]\<rparr>)"
proof -
  let ?w = "online nasa_news reply parsed"
  have nz: "lit ''NASA announces new mission'' \<noteq> []"
    by (simp add: lit_def)
  have h: "bind_exn (newsapi_everything ?w (news_params a k)) (news_headline ?w)
             = Inr (Some (JStr (lit ''NASA announces new mission'')))"
    using nz by (simp add: online_def offline_def nasa_news_def nasa_headline)
  have l: "json_loads ?w reply = Some parsed"
    by (simp add: online_def offline_def)
  show ?thesis
    by (rule news_produce [OF assms(6,7) h call_ai_model_online_reply [OF assms(1-4)] assms(1) l
          assms(5)])
qed

lemma hello_reply_shape:
  "hello_reply \<noteq> []" "\<not> is_space (hd hello_reply)" "\<not> is_space (last hello_reply)"
  "96 \<notin> set hello_reply"
  by (simp_all add: hello_reply_def lit_def is_space_def)

lemma long_reply_shape:
  "long_reply \<noteq> []" "\<not> is_space (hd long_reply)" "\<not> is_space (last long_reply)"
  "96 \<notin> set long_reply"
  by (simp_all add: long_reply_def lit_def is_space_def)

lemma logged_in_fields:
  "config (logged_in cfg) = cfg" "secrets (logged_in cfg) = all_secrets"
  "driver (logged_in cfg)" "ai_requests (logged_in cfg) = []" "dispatches (logged_in cfg) = []"
  "tweet_history (logged_in cfg) = []"
  by (simp_all add: logged_in_def init_def)

lemma news_key: "NEWSAPI_KEY all_secrets = Some (lit ''news-key'')" "lit ''news-key'' \<noteq> []"
  by (simp_all add: all_secrets_def lit_def)

lemma post_only_news_function:
  "\<not> auto_niche (config a) \<Longrightarrow>
   get_generation_function a (lit ''post_only_news'') = Some NewsArticle"
  by (simp add: get_generation_function_def lit_def)

lemma strip_at_alice: "strip_at (lit ''@alice'') = lit ''alice''"
  by (simp add: strip_at_def strip_where_def lit_def)

lemma good_article_not_promoted:
  "\<not> py_in (lit ''promoted'') (lit ''alice @alice Great launch today'')"
  by (simp add: lit_def)

lemma inspect_good_article:
  "str_lower w = (\<lambda>s. s) \<Longrightarrow> inspect_article w good_article = Inr (Some alice_target)"
  by (simp add: inspect_article_def good_article_def alice_target_def good_article_not_promoted
        strip_at_alice)

lemma timeline_lower: "str_lower (timeline shown) = (\<lambda>s. s)"
  by (simp add: timeline_def online_def offline_def)

lemma sampled_timeline_one:
  "sampled_articles (timeline [x]) (logged_in cfg) = Inr [x]"
  by (simp add: sampled_articles_def logged_in_fields random_sample_def timeline_def online_def
        offline_def)

lemma sampled_timeline_two:
  "sampled_articles (timeline [x, y]) (logged_in cfg) = Inr [x, y]"
  by (simp add: sampled_articles_def logged_in_fields random_sample_def timeline_def online_def
        offline_def numeral_2_eq_2)

lemma find_good_article:
  "find_tweet_to_engage_with (timeline [good_article]) (logged_in cfg) = Inr (Some alice_target)"
  by (simp add: find_tweet_to_engage_with_def sampled_timeline_one
        inspect_good_article [OF timeline_lower])

lemma call_ai_model_timeline:
  "call_ai_model (timeline shown) p False a =
     (Some hello_reply, a\<lparr>ai_requests := ai_requests a @ [(p, False)]\<rparr>)"
  using call_ai_model_gemini_body [of "timeline shown" p hello_reply False a]
  by (simp add: timeline_def online_def offline_def hello_clean)

lemma bot_config_fields:
  "required_text bot_config = Some (lit ''Posted by Bot'')" "\<not> auto_niche bot_config"
  "\<not> attach_image bot_config"
  by (simp_all add: bot_config_def news_config_def no_config_def)

lemma truncate_short:
  "length t \<le> 280 \<Longrightarrow> truncate_or_summarize w (JStr t) a = (Inr (JStr t), a)"
  by (simp add: truncate_or_summarize_def TWITTER_CHAR_LIMIT_def)

theorem required_text_appended_after_enforcement_witness:
  "required_text (config (logged_in bot_config)) = Some (lit ''Posted by Bot'')
   \<and> lit ''Posted by Bot'' \<noteq> []
   \<and> dispatches (snd (perform_post_action (online nasa_news hello_reply hello_parsed)
         (lit ''post_only_news'') (logged_in bot_config)))
      = [PostTweet (JStr (lit ''Hello'' @ nl @ nl @ lit ''Posted by Bot'')) None]
   \<and> dispatches (snd (perform_post_action (online nasa_news long_reply long_parsed)
         (lit ''post_only_news'') (logged_in bot_config)))
      = [PostTweet (JStr (replicate 280 65 @ nl @ nl @ lit ''Posted by Bot'')) None]
   \<and> dispatches (snd (perform_reply_action (timeline [good_article]) (logged_in bot_config)))
      = [ReplyTweet (lit ''https://x.com/alice/status/1'')
           (JStr (lit ''Hello'' @ nl @ nl @ lit ''Posted by Bot''))]
   \<and> lit ''Hello'' @ nl @ nl @ lit ''Posted by Bot'' = lit ''Hello\<newline>\<newline>Posted by Bot''
   \<and> length (replicate 280 (65::nat) @ nl @ nl @ lit ''Posted by Bot'') = 295"
proof -
  let ?a = "logged_in bot_config"
  let ?trailer = "lit ''Posted by Bot''"
  have req: "required_text (config ?a) = Some ?trailer"
    by (simp add: logged_in_fields bot_config_fields)
  have ne: "?trailer \<noteq> []"
    by (simp add: lit_def)
  have gf: "get_generation_function ?a (lit ''post_only_news'') = Some NewsArticle"
    by (simp add: post_only_news_function logged_in_fields bot_config_fields)
  have key: "NEWSAPI_KEY (secrets ?a) = Some (lit ''news-key'')"
    by (simp add: logged_in_fields news_key)
  have noimg: "\<not> attach_image (config ?a)"
    by (simp add: logged_in_fields bot_config_fields)

  have hello: "dict_get hello_parsed (lit ''tweet_text'') = Inr (JStr (lit ''Hello''))"
    by (simp add: hello_parsed_def lit_def)
  obtain a1 where gen1: "generation_function NewsArticle (online nasa_news hello_reply hello_parsed) ?a
       = (Inr (Some \<lparr>pkg_text = JStr (lit ''Hello''),
                     query_for_image = JStr (lit ''NASA announces new mission'')\<rparr>), a1)"
    and d1: "dispatches a1 = []"
    using online_news [OF hello_reply_shape hello key news_key(2)]
    by (simp add: logged_in_fields)
  have hne: "lit ''Hello'' \<noteq> []"
    by (simp add: lit_def)
  obtain e1 b1 where
    t1: "truncate_or_summarize (online nasa_news hello_reply hello_parsed) (JStr (lit ''Hello'')) a1
           = (Inr (JStr e1), b1)"
    and p1: "perform_post_action (online nasa_news hello_reply hello_parsed)
               (lit ''post_only_news'') ?a
             = (Inr (), post_tweet_in_browser (JStr (e1 @ nl @ nl @ ?trailer))
                  (if attach_image (config ?a)
                   then get_image_from_newsapi (online nasa_news hello_reply hello_parsed) b1
                          (query_for_image \<lparr>pkg_text = JStr (lit ''Hello''),
                             query_for_image = JStr (lit ''NASA announces new mission'')\<rparr>)
                   else None) b1)"
    using required_text_appended_after_enforcement [OF req ne,
        of "lit ''post_only_news''" "online nasa_news hello_reply hello_parsed"] gf gen1 hne
    by (metis content_package.select_convs(1))
  have "e1 = lit ''Hello'' \<and> b1 = a1"
    using t1 truncate_short [of "lit ''Hello''" _ a1] by simp
  with p1 d1 noimg have post: "dispatches (snd (perform_post_action
         (online nasa_news hello_reply hello_parsed) (lit ''post_only_news'') ?a))
      = [PostTweet (JStr (lit ''Hello'' @ nl @ nl @ ?trailer)) None]"
    by (simp add: post_tweet_in_browser_def)

  have long: "dict_get long_parsed (lit ''tweet_text'') = Inr (JStr (replicate 280 65))"
    by (simp add: long_parsed_def)
  obtain a2 where gen2: "generation_function NewsArticle (online nasa_news long_reply long_parsed) ?a
       = (Inr (Some \<lparr>pkg_text = JStr (replicate 280 65),
                     query_for_image = JStr (lit ''NASA announces new mission'')\<rparr>), a2)"
    and d2: "dispatches a2 = []"
    using online_news [OF long_reply_shape long key news_key(2)]
    by (simp add: logged_in_fields)
  have lne: "replicate 280 (65::nat) \<noteq> []"
    by simp
  obtain e2 b2 where
    t2: "truncate_or_summarize (online nasa_news long_reply long_parsed) (JStr (replicate 280 65)) a2
           = (Inr (JStr e2), b2)"
    and p2: "perform_post_action (online nasa_news long_reply long_parsed)
               (lit ''post_only_news'') ?a
             = (Inr (), post_tweet_in_browser (JStr (e2 @ nl @ nl @ ?trailer))
                  (if attach_image (config ?a)
                   then get_image_from_newsapi (online nasa_news long_reply long_parsed) b2
                          (query_for_image \<lparr>pkg_text = JStr (replicate 280 65),
                             query_for_image = JStr (lit ''NASA announces new mission'')\<rparr>)
                   else None) b2)"
    using required_text_appended_after_enforcement [OF req ne,
        of "lit ''post_only_news''" "online nasa_news long_reply long_parsed"] gf gen2 lne
    by (metis content_package.select_convs(1))
  have "e2 = replicate 280 65 \<and> b2 = a2"
    using t2 truncate_short [of "replicate 280 65" _ a2] by simp
  with p2 d2 noimg have post_long: "dispatches (snd (perform_post_action
         (online nasa_news long_reply long_parsed) (lit ''post_only_news'') ?a))
      = [PostTweet (JStr (replicate 280 65 @ nl @ nl @ ?trailer)) None]"
    by (simp add: post_tweet_in_browser_def)

  have loads: "json_loads (timeline [good_article]) hello_reply = Some hello_parsed"
    by (simp add: timeline_def online_def offline_def)
  obtain e3 b3 where
    t3: "truncate_or_summarize (timeline [good_article]) (JStr (lit ''Hello''))
           (?a\<lparr>ai_requests := ai_requests ?a @ [(create_engagement_prompt ?a alice_target, False)]\<rparr>)
           = (Inr (JStr e3), b3)"
    and p3: "perform_reply_action (timeline [good_article]) ?a
             = (Inr (), reply_on_twitter (url alice_target) (JStr (e3 @ nl @ nl @ ?trailer)) b3)"
    using required_text_appended_after_enforcement [OF req ne, of _ "timeline [good_article]"]
      find_good_article [of bot_config]
      call_ai_model_timeline [of "[good_article]" "create_engagement_prompt ?a alice_target" ?a]
      hello_nonempty loads hello hne
    by blast
  have "e3 = lit ''Hello'' \<and> dispatches b3 = []"
    using t3 truncate_short [of "lit ''Hello''" "timeline [good_article]"]
    by (auto simp add: logged_in_fields)
  with p3 have reply: "dispatches (snd (perform_reply_action (timeline [good_article]) ?a))
      = [ReplyTweet (lit ''https://x.com/alice/status/1'')
           (JStr (lit ''Hello'' @ nl @ nl @ ?trailer))]"
    by (simp add: reply_on_twitter_def alice_target_def)

  have same: "lit ''Hello'' @ nl @ nl @ ?trailer = lit ''Hello\<newline>\<newline>Posted by Bot''"
    by (simp add: lit_def nl_def)
  have len: "length (replicate 280 (65::nat) @ nl @ nl @ ?trailer) = 295"
    by (simp add: nl_def)
  from req ne post post_long reply same len show ?thesis
    by simp
qed

section \<open>Engagement target discovery\<close>

lemma remove_nth_mset:
  "i < length xs \<Longrightarrow> add_mset (xs ! i) (mset (take i xs @ drop (Suc i) xs)) = mset xs"
proof -
  assume "i < length xs"
  then have "xs = take i xs @ xs ! i # drop (Suc i) xs"
    by (rule id_take_nth_drop)
  then have "mset xs = mset (take i xs @ xs ! i # drop (Suc i) xs)"
    by simp
  then show ?thesis
    by simp
qed

lemma draw_distinct_length: "length (draw_distinct d pool k) = min k (length pool)"
proof (induction k arbitrary: pool)
  case 0
  then show ?case by simp
next
  case (Suc k)
  show ?case
  proof (cases "pool = []")
    case True
    then show ?thesis by simp
  next
    case False
    then have "d k mod length pool < length pool"
      by simp
    then have "length (take (d k mod length pool) pool @ drop (Suc (d k mod length pool)) pool)
                 = length pool - 1"
      by simp
    with False Suc.IH show ?thesis
      by (cases pool) (simp_all add: Let_def)
  qed
qed

lemma draw_distinct_mset: "mset (draw_distinct d pool k) \<subseteq># mset pool"
proof (induction k arbitrary: pool)
  case 0
  then show ?case by simp
next
  case (Suc k)
  show ?case
  proof (cases "pool = []")
    case True
    then show ?thesis by simp
  next
    case False
    let ?i = "d k mod length pool"
    let ?rest = "take ?i pool @ drop (Suc ?i) pool"
    have i: "?i < length pool"
      using False by simp
    have "mset (draw_distinct d ?rest k) \<subseteq># mset ?rest"
      by (rule Suc.IH)
    then have "add_mset (pool ! ?i) (mset (draw_distinct d ?rest k))
                 \<subseteq># add_mset (pool ! ?i) (mset ?rest)"
      by simp
    with False remove_nth_mset [OF i] show ?thesis
      by (simp add: Let_def)
  qed
qed

lemma sampled_articles_shape:
  assumes "sampled_articles w a = Inr sampled"
  shows "length sampled \<le> 10
         \<and> (\<exists>shown. tweet_articles w (search_url w a) = Inr shown \<and> mset sampled \<subseteq># mset shown)"
proof -
  have d: "driver a"
    using assms by (cases "driver a") (simp_all add: sampled_articles_def)
  then obtain shown where s: "tweet_articles w (search_url w a) = Inr shown"
    using assms by (cases "tweet_articles w (search_url w a)") (simp_all add: sampled_articles_def)
  with d assms have eq: "sampled = draw_distinct (sample_draw w) shown (min (length shown) 10)"
    by (simp add: sampled_articles_def random_sample_def)
  have "length sampled \<le> 10"
    unfolding eq by (simp add: draw_distinct_length)
  moreover have "mset sampled \<subseteq># mset shown"
    unfolding eq by (rule draw_distinct_mset)
  ultimately show ?thesis
    using s by blast
qed

lemma engage_loop_Some:
  "engage_loop w arts = Inr (Some target) \<Longrightarrow>
   \<exists>art. art \<in> set arts \<and> inspect_article w art = Inr (Some target)"
proof (induction arts)
  case Nil
  then show ?case by simp
next
  case (Cons art rest)
  show ?case
  proof (cases "inspect_article w art = Inr (Some target)")
    case True
    then show ?thesis by auto
  next
    case False
    with Cons.prems have "engage_loop w rest = Inr (Some target)"
      by (auto split: sum.splits option.splits if_splits)
    with Cons.IH show ?thesis by auto
  qed
qed

lemma inspect_article_Some:
  assumes "inspect_article w art = Inr (Some target)"
  shows "\<exists>shown handle body href.
           article_text art = Inr shown \<and> \<not> py_in (lit ''promoted'') (str_lower w shown)
         \<and> user_name art = Inr handle \<and> tweet_text art = Inr body \<and> status_href art = Inr href
         \<and> target = \<lparr>author = strip_at handle, target_text = body, url = href\<rparr>"
  using assms
  by (auto simp add: inspect_article_def bind_exn_Inr_iff split: if_splits)

lemma find_tweet_loop:
  "sampled_articles w a = Inr sampled \<Longrightarrow>
   find_tweet_to_engage_with w a
     = (case engage_loop w sampled of Inl e \<Rightarrow> Inr None | Inr found \<Rightarrow> Inr found)"
  by (simp add: find_tweet_to_engage_with_def)

lemma find_tweet_Some:
  assumes "find_tweet_to_engage_with w a = Inr (Some target)"
  shows "\<exists>sampled. sampled_articles w a = Inr sampled \<and> engage_loop w sampled = Inr (Some target)"
proof (cases "sampled_articles w a")
  case (Inl e)
  with assms show ?thesis
    by (simp add: find_tweet_to_engage_with_def)
next
  case (Inr sampled)
  with assms show ?thesis
    by (auto simp add: find_tweet_to_engage_with_def split: sum.splits)
qed

lemma find_tweet_returns: "\<exists>found. find_tweet_to_engage_with w a = Inr found"
  by (simp add: find_tweet_to_engage_with_def split: sum.splits)

text \<open>
  C7, as stated, fails: when reading a field of a sampled item raises anything other than
  \<open>NoSuchElementException\<close> (a stale element), the next candidate is not tried; discovery
  ends with nothing although the next candidate is suitable.
\<close>

theorem engagement_skip_counterexample:
  "sampled_articles (timeline [stale_article, good_article]) (logged_in no_config)
     = Inr [stale_article, good_article]
   \<and> user_name stale_article = Inl OtherException
   \<and> inspect_article (timeline [stale_article, good_article]) good_article
       = Inr (Some alice_target)
   \<and> find_tweet_to_engage_with (timeline [stale_article, good_article]) (logged_in no_config)
       = Inr None"
proof -
  let ?w = "timeline [stale_article, good_article]"
  have fresh: "\<not> py_in (lit ''promoted'') (lit ''bob @bob Breaking news'')"
    by (simp add: lit_def)
  have stale: "inspect_article ?w stale_article = Inl OtherException"
    by (simp add: inspect_article_def stale_article_def timeline_lower fresh)
  have good: "inspect_article ?w good_article = Inr (Some alice_target)"
    by (rule inspect_good_article [OF timeline_lower])
  have "find_tweet_to_engage_with ?w (logged_in no_config) = Inr None"
    by (simp add: find_tweet_to_engage_with_def sampled_timeline_two stale)
  with good show ?thesis
    by (simp add: sampled_timeline_two stale_article_def)
qed

lemma inspect_article_unreadable:
  "article_text (art::article) = Inl e \<Longrightarrow> inspect_article w art = Inl e"
  by (simp add: inspect_article_def)

lemma inspect_article_promoted:
  "article_text (art::article) = Inr shown \<Longrightarrow> py_in (lit ''promoted'') (str_lower w shown) \<Longrightarrow>
   inspect_article w art = Inr None"
  by (simp add: inspect_article_def)

lemma inspect_article_no_handle:
  "article_text (art::article) = Inr shown \<Longrightarrow> \<not> py_in (lit ''promoted'') (str_lower w shown) \<Longrightarrow>
   user_name art = Inl e \<Longrightarrow> inspect_article w art = Inl e"
  by (simp add: inspect_article_def)

lemma inspect_article_no_body:
  "article_text (art::article) = Inr shown \<Longrightarrow> \<not> py_in (lit ''promoted'') (str_lower w shown) \<Longrightarrow>
   user_name art = Inr handle \<Longrightarrow> tweet_text art = Inl e \<Longrightarrow> inspect_article w art = Inl e"
  by (simp add: inspect_article_def)

lemma inspect_article_no_link:
  "article_text (art::article) = Inr shown \<Longrightarrow> \<not> py_in (lit ''promoted'') (str_lower w shown) \<Longrightarrow>
   user_name art = Inr handle \<Longrightarrow> tweet_text art = Inr body \<Longrightarrow> status_href art = Inl e \<Longrightarrow>
   inspect_article w art = Inl e"
  by (simp add: inspect_article_def)

lemma inspect_article_read:
  "article_text (art::article) = Inr shown \<Longrightarrow> \<not> py_in (lit ''promoted'') (str_lower w shown) \<Longrightarrow>
   user_name art = Inr handle \<Longrightarrow> tweet_text art = Inr body \<Longrightarrow> status_href art = Inr href \<Longrightarrow>
   inspect_article w art = Inr (Some \<lparr>author = strip_at handle, target_text = body, url = href\<rparr>)"
  by (simp add: inspect_article_def)

text \<open>
  C7, amended. A target that discovery returns comes from a sampled item that is not
  promoted and whose handle, body and permalink were all read. The sample has at most 10
  items, drawn without replacement from the items shown, and only sampled items are
  inspected. An item is skipped, and the next sampled item tried, when it is promoted and
  when reading its text, its handle, its body or its permalink raises
  \<open>NoSuchElementException\<close>; an item that is not promoted and whose three fields are read
  is returned; when a read raises any other exception the loop ends with that exception
  and discovery returns nothing. Discovery never raises.
\<close>

theorem engagement_discovery_sound:
  "(\<forall>target. find_tweet_to_engage_with w a = Inr (Some target)
      \<longrightarrow> (\<exists>sampled art shown handle body href.
             sampled_articles w a = Inr sampled \<and> art \<in> set sampled
           \<and> article_text art = Inr shown \<and> \<not> py_in (lit ''promoted'') (str_lower w shown)
           \<and> user_name art = Inr handle \<and> tweet_text art = Inr body
           \<and> status_href art = Inr href
           \<and> target = \<lparr>author = strip_at handle, target_text = body, url = href\<rparr>))
   \<and> (\<forall>sampled. sampled_articles w a = Inr sampled
      \<longrightarrow> length sampled \<le> 10
        \<and> (\<exists>shown. tweet_articles w (search_url w a) = Inr shown \<and> mset sampled \<subseteq># mset shown)
        \<and> find_tweet_to_engage_with w a
            = (case engage_loop w sampled of Inl e \<Rightarrow> Inr None | Inr found \<Rightarrow> Inr found))
   \<and> (\<forall>(art::article) rest. article_text art = Inl NoSuchElementException
      \<longrightarrow> engage_loop w (art # rest) = engage_loop w rest)
   \<and> (\<forall>(art::article) rest shown. article_text art = Inr shown
        \<and> py_in (lit ''promoted'') (str_lower w shown)
      \<longrightarrow> engage_loop w (art # rest) = engage_loop w rest)
   \<and> (\<forall>(art::article) rest shown. article_text art = Inr shown
        \<and> \<not> py_in (lit ''promoted'') (str_lower w shown)
        \<and> user_name art = Inl NoSuchElementException
      \<longrightarrow> engage_loop w (art # rest) = engage_loop w rest)
   \<and> (\<forall>(art::article) rest shown handle. article_text art = Inr shown
        \<and> \<not> py_in (lit ''promoted'') (str_lower w shown)
        \<and> user_name art = Inr handle \<and> tweet_text art = Inl NoSuchElementException
      \<longrightarrow> engage_loop w (art # rest) = engage_loop w rest)
   \<and> (\<forall>(art::article) rest shown handle body. article_text art = Inr shown
        \<and> \<not> py_in (lit ''promoted'') (str_lower w shown)
        \<and> user_name art = Inr handle \<and> tweet_text art = Inr body
        \<and> status_href art = Inl NoSuchElementException
      \<longrightarrow> engage_loop w (art # rest) = engage_loop w rest)
   \<and> (\<forall>(art::article) rest shown handle body href. article_text art = Inr shown
        \<and> \<not> py_in (lit ''promoted'') (str_lower w shown)
        \<and> user_name art = Inr handle \<and> tweet_text art = Inr body \<and> status_href art = Inr href
      \<longrightarrow> engage_loop w (art # rest)
            = Inr (Some \<lparr>author = strip_at handle, target_text = body, url = href\<rparr>))
   \<and> (\<forall>(art::article) rest e. e \<noteq> NoSuchElementException
        \<and> (article_text art = Inl e
           \<or> (\<exists>shown. article_text art = Inr shown
                \<and> \<not> py_in (lit ''promoted'') (str_lower w shown)
                \<and> (user_name art = Inl e
                   \<or> (\<exists>handle. user_name art = Inr handle
                        \<and> (tweet_text art = Inl e
                           \<or> (\<exists>body. tweet_text art = Inr body \<and> status_href art = Inl e))))))
      \<longrightarrow> engage_loop w (art # rest) = Inl e)
   \<and> (\<forall>sampled e. sampled_articles w a = Inr sampled \<and> engage_loop w sampled = Inl e
      \<longrightarrow> find_tweet_to_engage_with w a = Inr None)
   \<and> (\<exists>found. find_tweet_to_engage_with w a = Inr found)"
proof -
  have c1: "\<forall>target. find_tweet_to_engage_with w a = Inr (Some target)
      \<longrightarrow> (\<exists>sampled art shown handle body href.
             sampled_articles w a = Inr sampled \<and> art \<in> set sampled
           \<and> article_text art = Inr shown \<and> \<not> py_in (lit ''promoted'') (str_lower w shown)
           \<and> user_name art = Inr handle \<and> tweet_text art = Inr body
           \<and> status_href art = Inr href
           \<and> target = \<lparr>author = strip_at handle, target_text = body, url = href\<rparr>)"
  proof (intro allI impI)
    fix target
    assume "find_tweet_to_engage_with w a = Inr (Some target)"
    then obtain sampled where s: "sampled_articles w a = Inr sampled"
      "engage_loop w sampled = Inr (Some target)"
      using find_tweet_Some by blast
    then obtain art where art: "art \<in> set sampled" "inspect_article w art = Inr (Some target)"
      using engage_loop_Some by blast
    from inspect_article_Some [OF art(2)] s(1) art(1)
    show "\<exists>sampled art shown handle body href.
             sampled_articles w a = Inr sampled \<and> art \<in> set sampled
           \<and> article_text art = Inr shown \<and> \<not> py_in (lit ''promoted'') (str_lower w shown)
           \<and> user_name art = Inr handle \<and> tweet_text art = Inr body
           \<and> status_href art = Inr href
           \<and> target = \<lparr>author = strip_at handle, target_text = body, url = href\<rparr>"
      by blast
  qed
  have c2: "\<forall>sampled. sampled_articles w a = Inr sampled
      \<longrightarrow> length sampled \<le> 10
        \<and> (\<exists>shown. tweet_articles w (search_url w a) = Inr shown \<and> mset sampled \<subseteq># mset shown)
        \<and> find_tweet_to_engage_with w a
            = (case engage_loop w sampled of Inl e \<Rightarrow> Inr None | Inr found \<Rightarrow> Inr found)"
    using sampled_articles_shape [of w a] find_tweet_loop [of w a] by blast
  have c3: "\<forall>(art::article) rest. article_text art = Inl NoSuchElementException
      \<longrightarrow> engage_loop w (art # rest) = engage_loop w rest"
    by (simp add: inspect_article_unreadable)
  have c4: "\<forall>(art::article) rest shown. article_text art = Inr shown
        \<and> py_in (lit ''promoted'') (str_lower w shown)
      \<longrightarrow> engage_loop w (art # rest) = engage_loop w rest"
    by (simp add: inspect_article_promoted)
  have c5: "\<forall>(art::article) rest shown. article_text art = Inr shown
        \<and> \<not> py_in (lit ''promoted'') (str_lower w shown)
        \<and> user_name art = Inl NoSuchElementException
      \<longrightarrow> engage_loop w (art # rest) = engage_loop w rest"
    by (simp add: inspect_article_no_handle)
  have c6: "\<forall>(art::article) rest shown handle. article_text art = Inr shown
        \<and> \<not> py_in (lit ''promoted'') (str_lower w shown)
        \<and> user_name art = Inr handle \<and> tweet_text art = Inl NoSuchElementException
      \<longrightarrow> engage_loop w (art # rest) = engage_loop w rest"
    by (simp add: inspect_article_no_body)
  have c7: "\<forall>(art::article) rest shown handle body. article_text art = Inr shown
        \<and> \<not> py_in (lit ''promoted'') (str_lower w shown)
        \<and> user_name art = Inr handle \<and> tweet_text art = Inr body
        \<and> status_href art = Inl NoSuchElementException
      \<longrightarrow> engage_loop w (art # rest) = engage_loop w rest"
    by (simp add: inspect_article_no_link)
  have c8: "\<forall>(art::article) rest shown handle body href. article_text art = Inr shown
        \<and> \<not> py_in (lit ''promoted'') (str_lower w shown)
        \<and> user_name art = Inr handle \<and> tweet_text art = Inr body \<and> status_href art = Inr href
      \<longrightarrow> engage_loop w (art # rest)
            = Inr (Some \<lparr>author = strip_at handle, target_text = body, url = href\<rparr>)"
    by (simp add: inspect_article_read)
  have c9: "\<forall>(art::article) rest e. e \<noteq> NoSuchElementException
        \<and> (article_text art = Inl e
           \<or> (\<exists>shown. article_text art = Inr shown
                \<and> \<not> py_in (lit ''promoted'') (str_lower w shown)
                \<and> (user_name art = Inl e
                   \<or> (\<exists>handle. user_name art = Inr handle
                        \<and> (tweet_text art = Inl e
                           \<or> (\<exists>body. tweet_text art = Inr body \<and> status_href art = Inl e))))))
      \<longrightarrow> engage_loop w (art # rest) = Inl e"
  proof (intro allI impI)
    fix art :: article and rest e
    assume h: "e \<noteq> NoSuchElementException
        \<and> (article_text art = Inl e
           \<or> (\<exists>shown. article_text art = Inr shown
                \<and> \<not> py_in (lit ''promoted'') (str_lower w shown)
                \<and> (user_name art = Inl e
                   \<or> (\<exists>handle. user_name art = Inr handle
                        \<and> (tweet_text art = Inl e
                           \<or> (\<exists>body. tweet_text art = Inr body \<and> status_href art = Inl e))))))"
    then have "inspect_article w art = Inl e"
      using inspect_article_unreadable [of art e w] inspect_article_no_handle [of art _ w e]
        inspect_article_no_body [of art _ w _ e] inspect_article_no_link [of art _ w _ _ e]
      by blast
    with h show "engage_loop w (art # rest) = Inl e"
      by simp
  qed
  have c10: "\<forall>sampled e. sampled_articles w a = Inr sampled \<and> engage_loop w sampled = Inl e
      \<longrightarrow> find_tweet_to_engage_with w a = Inr None"
    by (simp add: find_tweet_loop)
  show ?thesis
    using c1 c2 c3 c4 c5 c6 c7 c8 c9 c10 find_tweet_returns [of w a]
    by (intro conjI) assumption+
qed


lemma good_article_fields:
  "article_text good_article = Inr (lit ''alice @alice Great launch today'')"
  "user_name good_article = Inr (lit ''@alice'')"
  "tweet_text good_article = Inr (lit ''Great launch today'')"
  "status_href good_article = Inr (lit ''https://x.com/alice/status/1'')"
  by (simp_all add: good_article_def)

lemma alice_target_read:
  "\<lparr>author = strip_at (lit ''@alice''), target_text = lit ''Great launch today'',
    url = lit ''https://x.com/alice/status/1''\<rparr> = alice_target"
  by (simp add: alice_target_def strip_at_alice)

lemma sample_texts:
  "\<not> py_in (lit ''promoted'') (lit ''dave Nice picture'')"
  "\<not> py_in (lit ''promoted'') (lit ''carol @carol'')"
  "\<not> py_in (lit ''promoted'') (lit ''erin @erin Draft'')"
  "\<not> py_in (lit ''promoted'') (lit ''bob @bob Breaking news'')"
  "py_in (lit ''promoted'') (lit ''shop @shop Buy now promoted'')"
  by (simp_all add: lit_def)

theorem engagement_discovery_sound_witness:
  "user_name nohandle_article = Inl NoSuchElementException
   \<and> find_tweet_to_engage_with (timeline [nohandle_article, good_article]) (logged_in no_config)
       = Inr (Some alice_target)
   \<and> tweet_text missing_article = Inl NoSuchElementException
   \<and> find_tweet_to_engage_with (timeline [missing_article, good_article]) (logged_in no_config)
       = Inr (Some alice_target)
   \<and> status_href nolink_article = Inl NoSuchElementException
   \<and> find_tweet_to_engage_with (timeline [nolink_article, good_article]) (logged_in no_config)
       = Inr (Some alice_target)
   \<and> py_in (lit ''promoted'') (lit ''shop @shop Buy now promoted'')
   \<and> find_tweet_to_engage_with (timeline [promoted_article, good_article]) (logged_in no_config)
       = Inr (Some alice_target)
   \<and> user_name stale_article = Inl OtherException
   \<and> find_tweet_to_engage_with (timeline [stale_article, good_article]) (logged_in no_config)
       = Inr None
   \<and> sampled_articles (timeline [missing_article, good_article]) (logged_in no_config)
       = Inr [missing_article, good_article]
   \<and> length [missing_article, good_article] \<le> 10
   \<and> (\<exists>sampled art shown handle body href.
         sampled_articles (timeline [missing_article, good_article]) (logged_in no_config)
           = Inr sampled
       \<and> art \<in> set sampled
       \<and> article_text art = Inr shown
       \<and> \<not> py_in (lit ''promoted'')
             (str_lower (timeline [missing_article, good_article]) shown)
       \<and> user_name art = Inr handle \<and> tweet_text art = Inr body \<and> status_href art = Inr href
       \<and> alice_target = \<lparr>author = strip_at handle, target_text = body, url = href\<rparr>)"
proof -
  let ?a = "logged_in no_config"
  have hit: "engage_loop (timeline [x, good_article]) [good_article] = Inr (Some alice_target)"
    for x
    using engagement_discovery_sound [of "timeline [x, good_article]" ?a]
      good_article_fields good_article_not_promoted alice_target_read
    by (simp add: timeline_lower)
  have found: "find_tweet_to_engage_with (timeline [x, good_article]) ?a = Inr (Some alice_target)"
    if "engage_loop (timeline [x, good_article]) [x, good_article]
          = engage_loop (timeline [x, good_article]) [good_article]" for x
    using engagement_discovery_sound [of "timeline [x, good_article]" ?a]
      sampled_timeline_two [of x good_article no_config] that hit [of x]
    by simp
  have nohandle: "user_name nohandle_article = Inl NoSuchElementException"
    "article_text nohandle_article = Inr (lit ''dave Nice picture'')"
    by (simp_all add: nohandle_article_def)
  have missing: "tweet_text missing_article = Inl NoSuchElementException"
    "article_text missing_article = Inr (lit ''carol @carol'')"
    "user_name missing_article = Inr (lit ''@carol'')"
    by (simp_all add: missing_article_def)
  have nolink: "status_href nolink_article = Inl NoSuchElementException"
    "article_text nolink_article = Inr (lit ''erin @erin Draft'')"
    "user_name nolink_article = Inr (lit ''@erin'')"
    "tweet_text nolink_article = Inr (lit ''Draft'')"
    by (simp_all add: nolink_article_def)
  have promoted: "article_text promoted_article = Inr (lit ''shop @shop Buy now promoted'')"
    by (simp add: promoted_article_def)
  have stale: "user_name stale_article = Inl OtherException"
    "article_text stale_article = Inr (lit ''bob @bob Breaking news'')"
    by (simp_all add: stale_article_def)
  have f1: "find_tweet_to_engage_with (timeline [nohandle_article, good_article]) ?a
              = Inr (Some alice_target)"
  proof (rule found)
    show "engage_loop (timeline [nohandle_article, good_article]) [nohandle_article, good_article]
            = engage_loop (timeline [nohandle_article, good_article]) [good_article]"
      using engagement_discovery_sound [of "timeline [nohandle_article, good_article]" ?a]
        nohandle sample_texts
      by (simp add: timeline_lower)
  qed
  have f2: "find_tweet_to_engage_with (timeline [missing_article, good_article]) ?a
              = Inr (Some alice_target)"
  proof (rule found)
    show "engage_loop (timeline [missing_article, good_article]) [missing_article, good_article]
            = engage_loop (timeline [missing_article, good_article]) [good_article]"
      using engagement_discovery_sound [of "timeline [missing_article, good_article]" ?a]
        missing sample_texts
      by (simp add: timeline_lower)
  qed
  have f3: "find_tweet_to_engage_with (timeline [nolink_article, good_article]) ?a
              = Inr (Some alice_target)"
  proof (rule found)
    show "engage_loop (timeline [nolink_article, good_article]) [nolink_article, good_article]
            = engage_loop (timeline [nolink_article, good_article]) [good_article]"
      using engagement_discovery_sound [of "timeline [nolink_article, good_article]" ?a]
        nolink sample_texts
      by (simp add: timeline_lower)
  qed
  have f4: "find_tweet_to_engage_with (timeline [promoted_article, good_article]) ?a
              = Inr (Some alice_target)"
  proof (rule found)
    show "engage_loop (timeline [promoted_article, good_article]) [promoted_article, good_article]
            = engage_loop (timeline [promoted_article, good_article]) [good_article]"
      using engagement_discovery_sound [of "timeline [promoted_article, good_article]" ?a]
        promoted sample_texts
      by (simp add: timeline_lower)
  qed
  have "engage_loop (timeline [stale_article, good_article]) [stale_article, good_article]
          = Inl OtherException"
    using engagement_discovery_sound [of "timeline [stale_article, good_article]" ?a]
      stale sample_texts
    by (simp add: timeline_lower)
  then have f5: "find_tweet_to_engage_with (timeline [stale_article, good_article]) ?a = Inr None"
    using engagement_discovery_sound [of "timeline [stale_article, good_article]" ?a]
      sampled_timeline_two [of stale_article good_article no_config]
    by simp
  have sampled: "sampled_articles (timeline [missing_article, good_article]) ?a
                   = Inr [missing_article, good_article]"
    by (rule sampled_timeline_two)
  have len: "length [missing_article, good_article] \<le> 10"
    using engagement_discovery_sound [of "timeline [missing_article, good_article]" ?a,
        THEN conjunct2, THEN conjunct1, rule_format, OF sampled]
    by (rule conjunct1)
  have origin: "\<exists>sampled art shown handle body href.
         sampled_articles (timeline [missing_article, good_article]) ?a = Inr sampled
       \<and> art \<in> set sampled
       \<and> article_text art = Inr shown
       \<and> \<not> py_in (lit ''promoted'')
             (str_lower (timeline [missing_article, good_article]) shown)
       \<and> user_name art = Inr handle \<and> tweet_text art = Inr body \<and> status_href art = Inr href
       \<and> alice_target = \<lparr>author = strip_at handle, target_text = body, url = href\<rparr>"
    using engagement_discovery_sound [of "timeline [missing_article, good_article]" ?a,
        THEN conjunct1, rule_format, OF f2]
    by simp
  show ?thesis
    using nohandle(1) f1 missing(1) f2 nolink(1) f3 sample_texts(5) f4 stale(1) f5 sampled len
      origin
    by (intro conjI) assumption+
qed

section \<open>Unavailable sources\<close>

lemma fst_except_Exception: "\<exists>r. fst (except_Exception x) = Inr r"
  by (cases x) (simp add: except_Exception_def split: sum.splits)

lemma trends_returns: "\<exists>r. fst (analyze_and_generate_from_global_trends w a) = Inr r"
  unfolding analyze_and_generate_from_global_trends_def by (rule fst_except_Exception)

lemma news_returns: "\<exists>r. fst (generate_from_news_article w a) = Inr r"
proof (cases "NEWSAPI_KEY (secrets a)")
  case None
  then show ?thesis by (simp add: generate_from_news_article_def)
next
  case (Some k)
  show ?thesis
  proof (cases "k = []")
    case True
    with Some show ?thesis by (simp add: generate_from_news_article_def)
  next
    case False
    with Some show ?thesis
      by (simp add: generate_from_news_article_def fst_except_Exception)
  qed
qed

lemma word_returns: "\<exists>r. fst (generate_from_word_file w a) = Inr r"
proof (cases "word_file_path (config a)")
  case None
  then show ?thesis by (simp add: generate_from_word_file_def)
next
  case (Some p)
  show ?thesis
  proof (cases "p = [] \<or> \<not> path_exists w p")
    case True
    with Some show ?thesis by (auto simp add: generate_from_word_file_def)
  next
    case False
    with Some show ?thesis
      by (simp add: generate_from_word_file_def fst_except_Exception)
  qed
qed

lemma generation_returns: "\<exists>r. fst (generation_function g w a) = Inr r"
  by (cases g) (simp_all add: trends_returns news_returns word_returns)

lemma trends_empty:
  "trending_page w = Inr elems \<Longrightarrow> filter (\<lambda>t. t \<noteq> []) elems = [] \<Longrightarrow>
   analyze_and_generate_from_global_trends w a = (Inr None, a)"
  by (simp add: analyze_and_generate_from_global_trends_def except_Exception_def)

lemma trends_unavailable:
  "trending_page w = Inl e \<Longrightarrow> analyze_and_generate_from_global_trends w a = (Inr None, a)"
  by (simp add: analyze_and_generate_from_global_trends_def except_Exception_def)

lemma word_unset:
  "word_file_path (config a) = None \<Longrightarrow> generate_from_word_file w a = (Inr None, a)"
  by (simp add: generate_from_word_file_def)

lemma word_missing:
  "word_file_path (config a) = Some p \<Longrightarrow> \<not> path_exists w p \<Longrightarrow>
   generate_from_word_file w a = (Inr None, a)"
  by (simp add: generate_from_word_file_def)

lemma news_unavailable:
  assumes "NEWSAPI_KEY (secrets a) = Some k"
    and "newsapi_everything w (news_params a k) = Inr api_data"
    and "dict_get api_data (lit ''status'') \<noteq> Inr (JStr (lit ''ok''))
         \<or> (\<exists>listed. dict_get api_data (lit ''articles'') = Inr listed \<and> \<not> truthy listed)"
  shows "generate_from_news_article w a = (Inr None, a)"
proof (rule news_none [OF assms(1)])
  fix h
  show "bind_exn (newsapi_everything w (news_params a k)) (news_headline w) \<noteq> Inr (Some h)"
    using assms(2,3) news_headline_Some [of w api_data h] by auto
qed

lemma news_failed:
  assumes "NEWSAPI_KEY (secrets a) = Some k"
    and "newsapi_everything w (news_params a k) = Inl e"
  shows "generate_from_news_article w a = (Inr None, a)"
proof (rule news_none [OF assms(1)])
  fix h
  show "bind_exn (newsapi_everything w (news_params a k)) (news_headline w) \<noteq> Inr (Some h)"
    using assms(2) by simp
qed

lemma reply_no_target:
  "find_tweet_to_engage_with w a = Inr None \<Longrightarrow> perform_reply_action w a = (Inr (), a)"
  by (simp add: perform_reply_action_def)

text \<open>
  C8. A strategy whose source is unavailable returns nothing and leaves the agent as it
  was, so that no request goes to the AI service: an empty or unreachable trending
  listing, an unset or missing document, a news response that failed, has a non-success
  status or lists no article, and a reply with no engagement target. No strategy and no
  discovery ever raises to its caller.
\<close>

theorem unavailable_source_returns_nothing:
  "(\<forall>elems. trending_page w = Inr elems \<and> filter (\<lambda>t. t \<noteq> []) elems = []
      \<longrightarrow> analyze_and_generate_from_global_trends w a = (Inr None, a))
   \<and> (\<forall>e. trending_page w = Inl e
      \<longrightarrow> analyze_and_generate_from_global_trends w a = (Inr None, a))
   \<and> (word_file_path (config a) = None
      \<longrightarrow> generate_from_word_file w a = (Inr None, a)
        \<and> ai_requests (snd (generate_from_word_file w a)) = ai_requests a)
   \<and> (\<forall>p. word_file_path (config a) = Some p \<and> \<not> path_exists w p
      \<longrightarrow> generate_from_word_file w a = (Inr None, a))
   \<and> (\<forall>k api_data. NEWSAPI_KEY (secrets a) = Some k
        \<and> newsapi_everything w (news_params a k) = Inr api_data
        \<and> (dict_get api_data (lit ''status'') \<noteq> Inr (JStr (lit ''ok''))
           \<or> (\<exists>listed. dict_get api_data (lit ''articles'') = Inr listed \<and> \<not> truthy listed))
      \<longrightarrow> generate_from_news_article w a = (Inr None, a))
   \<and> (\<forall>k e. NEWSAPI_KEY (secrets a) = Some k \<and> newsapi_everything w (news_params a k) = Inl e
      \<longrightarrow> generate_from_news_article w a = (Inr None, a))
   \<and> (find_tweet_to_engage_with w a = Inr None \<longrightarrow> perform_reply_action w a = (Inr (), a))
   \<and> (\<forall>g. \<exists>r. fst (generation_function g w a) = Inr r)
   \<and> (\<exists>found. find_tweet_to_engage_with w a = Inr found)"
proof -
  have trends: "\<forall>elems. trending_page w = Inr elems \<and> filter (\<lambda>t. t \<noteq> []) elems = []
      \<longrightarrow> analyze_and_generate_from_global_trends w a = (Inr None, a)"
    using trends_empty by blast
  have listing: "\<forall>e. trending_page w = Inl e
      \<longrightarrow> analyze_and_generate_from_global_trends w a = (Inr None, a)"
    using trends_unavailable by blast
  have unset: "word_file_path (config a) = None
      \<longrightarrow> generate_from_word_file w a = (Inr None, a)
        \<and> ai_requests (snd (generate_from_word_file w a)) = ai_requests a"
    by (simp add: word_unset)
  have missing: "\<forall>p. word_file_path (config a) = Some p \<and> \<not> path_exists w p
      \<longrightarrow> generate_from_word_file w a = (Inr None, a)"
    using word_missing by blast
  have news: "\<forall>k api_data. NEWSAPI_KEY (secrets a) = Some k
        \<and> newsapi_everything w (news_params a k) = Inr api_data
        \<and> (dict_get api_data (lit ''status'') \<noteq> Inr (JStr (lit ''ok''))
           \<or> (\<exists>listed. dict_get api_data (lit ''articles'') = Inr listed \<and> \<not> truthy listed))
      \<longrightarrow> generate_from_news_article w a = (Inr None, a)"
    using news_unavailable [of a _ w] by blast
  have failed: "\<forall>k e. NEWSAPI_KEY (secrets a) = Some k
        \<and> newsapi_everything w (news_params a k) = Inl e
      \<longrightarrow> generate_from_news_article w a = (Inr None, a)"
    using news_failed by blast
  have reply: "find_tweet_to_engage_with w a = Inr None \<longrightarrow> perform_reply_action w a = (Inr (), a)"
    using reply_no_target by blast
  have total: "\<forall>g. \<exists>r. fst (generation_function g w a) = Inr r"
    using generation_returns by blast
  show ?thesis
    using trends listing unset missing news failed reply total find_tweet_returns [of w a]
    by (intro conjI) assumption+
qed

theorem unavailable_source_returns_nothing_witness:
  "trending_page quiet = Inr [] \<and> filter (\<lambda>t. t \<noteq> []) ([] :: pystr list) = []
   \<and> analyze_and_generate_from_global_trends quiet (logged_in no_config)
       = (Inr None, logged_in no_config)
   \<and> trending_page offline = Inl OtherException
   \<and> analyze_and_generate_from_global_trends offline (logged_in no_config)
       = (Inr None, logged_in no_config)
   \<and> word_file_path (config (logged_in no_config)) = None
   \<and> generate_from_word_file quiet (logged_in no_config) = (Inr None, logged_in no_config)
   \<and> ai_requests (snd (generate_from_word_file quiet (logged_in no_config))) = []
   \<and> word_file_path (config (logged_in word_config)) = Some (lit ''notes.docx'')
   \<and> \<not> path_exists quiet (lit ''notes.docx'')
   \<and> generate_from_word_file quiet (logged_in word_config) = (Inr None, logged_in word_config)
   \<and> NEWSAPI_KEY (secrets (logged_in news_config)) = Some (lit ''news-key'')
   \<and> generate_from_news_article
        (online (JObj [(lit ''status'', JStr (lit ''error''))]) hello_reply hello_parsed)
        (logged_in news_config)
       = (Inr None, logged_in news_config)
   \<and> generate_from_news_article (online (news_of (JArr [])) hello_reply hello_parsed)
        (logged_in news_config)
       = (Inr None, logged_in news_config)
   \<and> generate_from_news_article offline (logged_in news_config)
       = (Inr None, logged_in news_config)
   \<and> find_tweet_to_engage_with quiet (logged_in no_config) = Inr None
   \<and> perform_reply_action quiet (logged_in no_config) = (Inr (), logged_in no_config)"
proof -
  let ?a = "logged_in no_config"
  have q: "trending_page quiet = Inr []" "\<not> path_exists quiet (lit ''notes.docx'')"
    by (simp_all add: quiet_def offline_def)
  have o: "trending_page offline = Inl OtherException"
    by (simp add: offline_def)
  have t1: "analyze_and_generate_from_global_trends quiet ?a = (Inr None, ?a)"
    using unavailable_source_returns_nothing [of quiet ?a] q(1) by simp
  have t2: "analyze_and_generate_from_global_trends offline ?a = (Inr None, ?a)"
    using unavailable_source_returns_nothing [of offline ?a] o by blast
  have u: "word_file_path (config ?a) = None"
    by (simp add: logged_in_fields no_config_def)
  have w1: "generate_from_word_file quiet ?a = (Inr None, ?a)"
    "ai_requests (snd (generate_from_word_file quiet ?a)) = []"
    using unavailable_source_returns_nothing [of quiet ?a] u by (simp_all add: logged_in_fields)
  have m: "word_file_path (config (logged_in word_config)) = Some (lit ''notes.docx'')"
    by (simp add: logged_in_fields word_config_def no_config_def)
  have w2: "generate_from_word_file quiet (logged_in word_config)
              = (Inr None, logged_in word_config)"
    using unavailable_source_returns_nothing [of quiet "logged_in word_config"] m q(2) by blast
  let ?n = "logged_in news_config"
  have key: "NEWSAPI_KEY (secrets ?n) = Some (lit ''news-key'')"
    by (simp add: logged_in_fields news_key)
  have resp: "newsapi_everything (online news hello_reply hello_parsed)
                (news_params ?n (lit ''news-key'')) = Inr news" for news
    by (simp add: online_def offline_def)
  have st: "dict_get (JObj [(lit ''status'', JStr (lit ''error''))]) (lit ''status'')
              \<noteq> Inr (JStr (lit ''ok''))"
    by (simp add: lit_def)
  have n1: "generate_from_news_article
        (online (JObj [(lit ''status'', JStr (lit ''error''))]) hello_reply hello_parsed) ?n
       = (Inr None, ?n)"
    using unavailable_source_returns_nothing
      [of "online (JObj [(lit ''status'', JStr (lit ''error''))]) hello_reply hello_parsed" ?n]
      key resp [of "JObj [(lit ''status'', JStr (lit ''error''))]"] st
    by blast
  have el: "dict_get (news_of (JArr [])) (lit ''articles'') = Inr (JArr []) \<and> \<not> truthy (JArr [])"
    by (simp add: news_of_def lit_def)
  have n2: "generate_from_news_article (online (news_of (JArr [])) hello_reply hello_parsed) ?n
       = (Inr None, ?n)"
    using unavailable_source_returns_nothing
      [of "online (news_of (JArr [])) hello_reply hello_parsed" ?n]
      key resp [of "news_of (JArr [])"] el
    by blast
  have off: "newsapi_everything offline (news_params ?n (lit ''news-key'')) = Inl OtherException"
    by (simp add: offline_def)
  have n3: "generate_from_news_article offline ?n = (Inr None, ?n)"
    using unavailable_source_returns_nothing [of offline ?n] key off by blast
  have f: "find_tweet_to_engage_with quiet ?a = Inr None"
    by (simp add: find_tweet_to_engage_with_def sampled_articles_def logged_in_fields
          random_sample_def quiet_def offline_def)
  have r: "perform_reply_action quiet ?a = (Inr (), ?a)"
    using unavailable_source_returns_nothing [of quiet ?a] f by blast
  from q o t1 t2 u w1 m w2 key n1 n2 n3 f r show ?thesis
    by simp
qed

section \<open>The history\<close>

lemma evolves_post: "evolves a (snd (perform_post_action w mode a))"
proof (cases "get_generation_function a mode")
  case None
  then show ?thesis
    by (simp add: perform_post_action_def evolves_refl)
next
  case (Some g)
  obtain r a1 where gen: "generation_function g w a = (r, a1)"
    by (cases "generation_function g w a")
  have e1: "evolves a a1"
    using evolves_generation [of a g w] gen by simp
  show ?thesis
  proof (cases "\<exists>pkg. r = Inr (Some pkg) \<and> truthy (pkg_text pkg)")
    case False
    then have "snd (perform_post_action w mode a) = a1"
      using Some gen
      by (auto simp add: perform_post_action_def split: sum.splits option.splits)
    with e1 show ?thesis by simp
  next
    case True
    then obtain pkg where pkg: "r = Inr (Some pkg)" "truthy (pkg_text pkg)"
      by blast
    obtain r2 a2 where tr: "truncate_or_summarize w (pkg_text pkg) a1 = (r2, a2)"
      by (cases "truncate_or_summarize w (pkg_text pkg) a1")
    have e2: "evolves a1 a2"
      using evolves_truncate [of a1 w "pkg_text pkg"] tr by simp
    have "snd (perform_post_action w mode a) = a2
          \<or> (\<exists>d. snd (perform_post_action w mode a) = a2\<lparr>dispatches := d\<rparr>)"
      using Some gen pkg tr
      by (cases r2) (auto simp add: perform_post_action_def post_tweet_in_browser_def Let_def)
    then have "evolves a2 (snd (perform_post_action w mode a))"
      using evolves_refl [of a2] evolves_dispatches [of a2] by auto
    with e1 e2 show ?thesis
      by (blast intro: evolves_trans)
  qed
qed

lemma evolves_reply: "evolves a (snd (perform_reply_action w a))"
proof (cases "\<exists>target. find_tweet_to_engage_with w a = Inr (Some target)")
  case False
  then have "snd (perform_reply_action w a) = a"
    by (auto simp add: perform_reply_action_def split: sum.splits option.splits)
  then show ?thesis
    by (simp add: evolves_refl)
next
  case True
  then obtain target where t: "find_tweet_to_engage_with w a = Inr (Some target)"
    by blast
  obtain r a1 where c: "call_ai_model w (create_engagement_prompt a target) False a = (r, a1)"
    by (cases "call_ai_model w (create_engagement_prompt a target) False a")
  have "\<exists>task p n is_reply. create_engagement_prompt a target = create_master_prompt a task p n is_reply"
    unfolding create_engagement_prompt_def Let_def by blast
  then have e1: "evolves a a1"
    using evolves_call [of False "create_engagement_prompt a target" a w] c by simp
  show ?thesis
  proof (cases "\<exists>parsed x. \<not> no_response r \<and> json_loads w (the r) = Some parsed
                  \<and> dict_get parsed (lit ''tweet_text'') = Inr x \<and> truthy x")
    case False
    then have "snd (perform_reply_action w a) = a1"
      using t c
      by (auto simp add: perform_reply_action_def split: sum.splits option.splits)
    with e1 show ?thesis by simp
  next
    case True
    then obtain parsed x where p: "\<not> no_response r" "json_loads w (the r) = Some parsed"
      "dict_get parsed (lit ''tweet_text'') = Inr x" "truthy x"
      by blast
    obtain r2 a2 where tr: "truncate_or_summarize w x a1 = (r2, a2)"
      by (cases "truncate_or_summarize w x a1")
    have e2: "evolves a1 a2"
      using evolves_truncate [of a1 w x] tr by simp
    have "snd (perform_reply_action w a) = a2
          \<or> (\<exists>d. snd (perform_reply_action w a) = a2\<lparr>dispatches := d\<rparr>)"
      using t c p tr
      by (cases r2) (auto simp add: perform_reply_action_def reply_on_twitter_def)
    then have "evolves a2 (snd (perform_reply_action w a))"
      using evolves_refl [of a2] evolves_dispatches [of a2] by auto
    with e1 e2 show ?thesis
      by (blast intro: evolves_trans)
  qed
qed

lemma evolves_run: "evolves a (snd (run_action_cycle w a))"
proof (cases "webdriver_starts w \<and> login_succeeds w")
  case False
  then have "snd (run_action_cycle w a) = a \<or> snd (run_action_cycle w a) = a\<lparr>driver := True\<rparr>"
    by (auto simp add: run_action_cycle_def Let_def)
  then show ?thesis
    using evolves_refl [of a] evolves_driver [of a True] by auto
next
  case True
  let ?a1 = "a\<lparr>driver := True\<rparr>"
  have "(\<exists>mode. snd (run_action_cycle w a) = snd (perform_post_action w mode ?a1))
        \<or> snd (run_action_cycle w a) = snd (perform_reply_action w ?a1)"
    using True by (auto simp add: run_action_cycle_def Let_def)
  then have "evolves ?a1 (snd (run_action_cycle w a))"
    using evolves_post [of ?a1 w] evolves_reply [of ?a1 w] by auto
  with evolves_driver [of a True] show ?thesis
    by (blast intro: evolves_trans)
qed

lemma history_generation: "tweet_history (snd (generation_function g w a)) = tweet_history a"
  using evolves_generation [of a g w] by (simp add: evolves_def)

lemma run_post_only_news:
  assumes "webdriver_starts w" and "login_succeeds w"
    and "action_mode (config a) = Some (lit ''post_only_news'')"
  shows "run_action_cycle w a = perform_post_action w (lit ''post_only_news'') (a\<lparr>driver := True\<rparr>)"
proof -
  have "action_type (lit ''post_only_news'') (random_random w) = lit ''post''"
    by (simp add: action_type_def lit_def)
  moreover have "lit ''post'' \<noteq> lit ''reply''"
    by (simp add: lit_def)
  ultimately show ?thesis
    using assms by (simp add: run_action_cycle_def Let_def)
qed

lemma post_plain:
  assumes "get_generation_function a mode = Some g"
    and "generation_function g w a = (Inr (Some pkg), a1)"
    and "pkg_text pkg = JStr t" and "t \<noteq> []" and "length t \<le> 280"
    and "required_text (config a1) = None" and "\<not> attach_image (config a1)"
  shows "perform_post_action w mode a = (Inr (), post_tweet_in_browser (JStr t) None a1)"
  using assms
  by (simp add: perform_post_action_def truncate_short append_required_text_def)

text \<open>
  C10. The history is empty at construction and no operation changes it: the strategies,
  the post and reply actions and the whole cycle return an agent with the history they
  were given. With an empty history the prompt builder writes \<open>No recent activity.\<close>
  in the place of the history, and in a run from a fresh agent every request of the
  trace other than a resummarization carries a prompt built on the fresh agent, hence
  with that marker.
\<close>

theorem tweet_history_never_changes:
  \<open>tweet_history (init cfg sec) = []
   \<and> (\<forall>g. tweet_history (snd (generation_function g w a)) = tweet_history a)
   \<and> tweet_history (snd (perform_post_action w mode a)) = tweet_history a
   \<and> tweet_history (snd (perform_reply_action w a)) = tweet_history a
   \<and> tweet_history (snd (run_action_cycle w a)) = tweet_history a
   \<and> (tweet_history a = [] \<longrightarrow>
        create_master_prompt a task personality niche_name is_reply =
          lit ''**Persona:** You are a '' @ apos @ str_opt personality @ apos @
          lit '' expert in '' @ apos @ str_opt niche_name @ apos @ lit ''.'' @ nl @
          lit ''**Your Recent Activity:**'' @ nl @ lit ''No recent activity.'' @ nl @
          lit ''**TASK:** '' @ task @ nl @
          lit ''**Output Format (Strictly JSON):**'' @ nl @ lit ''```json'' @ nl @
          lit ''{'' @ nl @ lit ''  '' @
          (if is_reply
           then lit ''"analysis": "Justification for your reply.", "tweet_text": "The reply text. DO NOT use @ mentions."''
           else lit ''"analysis": "A brief summary.", "tweet_text": "The final tweet text."'') @
          nl @ lit ''}'' @ nl @ lit ''```'')
   \<and> (\<forall>req \<in> set (ai_requests (snd (run_action_cycle w (init cfg sec)))).
        snd req \<or>
        (\<exists>task personality niche_name is_reply.
           fst req = create_master_prompt (init cfg sec) task personality niche_name is_reply))\<close>
proof -
  have fresh: "tweet_history (init cfg sec) = []"
    by (simp add: init_def)
  have gen: "\<forall>g. tweet_history (snd (generation_function g w a)) = tweet_history a"
    by (simp add: history_generation)
  have post: "tweet_history (snd (perform_post_action w mode a)) = tweet_history a"
    using evolves_post [of a w mode] by (simp add: evolves_def)
  have reply: "tweet_history (snd (perform_reply_action w a)) = tweet_history a"
    using evolves_reply [of a w] by (simp add: evolves_def)
  have run: "tweet_history (snd (run_action_cycle w a)) = tweet_history a"
    using evolves_run [of a w] by (simp add: evolves_def)
  have marker: \<open>tweet_history a = [] \<longrightarrow>
        create_master_prompt a task personality niche_name is_reply =
          lit ''**Persona:** You are a '' @ apos @ str_opt personality @ apos @
          lit '' expert in '' @ apos @ str_opt niche_name @ apos @ lit ''.'' @ nl @
          lit ''**Your Recent Activity:**'' @ nl @ lit ''No recent activity.'' @ nl @
          lit ''**TASK:** '' @ task @ nl @
          lit ''**Output Format (Strictly JSON):**'' @ nl @ lit ''```json'' @ nl @
          lit ''{'' @ nl @ lit ''  '' @
          (if is_reply
           then lit ''"analysis": "Justification for your reply.", "tweet_text": "The reply text. DO NOT use @ mentions."''
           else lit ''"analysis": "A brief summary.", "tweet_text": "The final tweet text."'') @
          nl @ lit ''}'' @ nl @ lit ''```''\<close>
    by (simp add: create_master_prompt_def Let_def)
  have trace: "\<forall>req \<in> set (ai_requests (snd (run_action_cycle w (init cfg sec)))).
        snd req \<or>
        (\<exists>task personality niche_name is_reply.
           fst req = create_master_prompt (init cfg sec) task personality niche_name is_reply)"
    using evolves_run [of "init cfg sec" w] by (auto simp add: evolves_def init_def)
  show ?thesis
    using fresh gen post reply run marker trace
    by (intro conjI) assumption+
qed

theorem tweet_history_never_changes_witness:
  \<open>tweet_history (init news_config all_secrets) = []
   \<and> tweet_history (snd (run_action_cycle (online nasa_news hello_reply hello_parsed)
        (init news_config all_secrets))) = []
   \<and> ai_requests (snd (run_action_cycle (online nasa_news hello_reply hello_parsed)
        (init news_config all_secrets)))
      = [(create_master_prompt (init news_config all_secrets)
            (news_task (online nasa_news hello_reply hello_parsed)
               (JStr (lit ''NASA announces new mission'')))
            None (Some (lit ''space'')) False, False)]
   \<and> create_master_prompt (init news_config all_secrets)
         (news_task (online nasa_news hello_reply hello_parsed)
            (JStr (lit ''NASA announces new mission'')))
         None (Some (lit ''space'')) False
      = lit ''**Persona:** You are a '' @ apos @ lit ''None'' @ apos @
        lit '' expert in '' @ apos @ lit ''space'' @ apos @ lit ''.'' @ nl @
        lit ''**Your Recent Activity:**'' @ nl @ lit ''No recent activity.'' @ nl @
        lit ''**TASK:** '' @ lit ''Analyze this news headline: '' @ apos @
        lit ''NASA announces new mission'' @ apos @
        lit ''. Formulate an insightful tweet about it.'' @ nl @
        lit ''**Output Format (Strictly JSON):**'' @ nl @ lit ''```json'' @ nl @
        lit ''{'' @ nl @ lit ''  '' @
        lit ''"analysis": "A brief summary.", "tweet_text": "The final tweet text."'' @
        nl @ lit ''}'' @ nl @ lit ''```''\<close>
proof -
  let ?w = "online nasa_news hello_reply hello_parsed"
  let ?a = "init news_config all_secrets"
  let ?p = "create_master_prompt ?a (news_task ?w (JStr (lit ''NASA announces new mission'')))
              None (Some (lit ''space'')) False"
  note hist = tweet_history_never_changes [of news_config all_secrets ?w ?a _
      "news_task ?w (JStr (lit ''NASA announces new mission''))" None "Some (lit ''space'')" False]
  have fresh: "tweet_history ?a = []"
    using hist by blast
  have kept: "tweet_history (snd (run_action_cycle ?w ?a)) = []"
    using hist fresh by simp
  have explicit: \<open>?p
      = lit ''**Persona:** You are a '' @ apos @ lit ''None'' @ apos @
        lit '' expert in '' @ apos @ lit ''space'' @ apos @ lit ''.'' @ nl @
        lit ''**Your Recent Activity:**'' @ nl @ lit ''No recent activity.'' @ nl @
        lit ''**TASK:** '' @ lit ''Analyze this news headline: '' @ apos @
        lit ''NASA announces new mission'' @ apos @
        lit ''. Formulate an insightful tweet about it.'' @ nl @
        lit ''**Output Format (Strictly JSON):**'' @ nl @ lit ''```json'' @ nl @
        lit ''{'' @ nl @ lit ''  '' @
        lit ''"analysis": "A brief summary.", "tweet_text": "The final tweet text."'' @
        nl @ lit ''}'' @ nl @ lit ''```''\<close>
    using hist fresh by (simp add: str_opt_def news_task_def py_str_def)
  let ?a1 = "?a\<lparr>driver := True\<rparr>"
  have cfg: "config ?a1 = news_config" "secrets ?a1 = all_secrets" "ai_requests ?a1 = []"
    by (simp_all add: init_def)
  have fields: "action_mode news_config = Some (lit ''post_only_news'')"
    "\<not> auto_niche news_config" "required_text news_config = None"
    "\<not> attach_image news_config" "tone news_config = None"
    "niche news_config = Some (lit ''space'')"
    by (simp_all add: news_config_def no_config_def)
  have run: "run_action_cycle ?w ?a = perform_post_action ?w (lit ''post_only_news'') ?a1"
    by (rule run_post_only_news) (simp_all add: online_def offline_def init_def fields)
  have gf: "get_generation_function ?a1 (lit ''post_only_news'') = Some NewsArticle"
    by (rule post_only_news_function) (simp add: cfg fields)
  have hello: "dict_get hello_parsed (lit ''tweet_text'') = Inr (JStr (lit ''Hello''))"
    by (simp add: hello_parsed_def lit_def)
  have key: "NEWSAPI_KEY (secrets ?a1) = Some (lit ''news-key'')"
    by (simp add: cfg news_key)
  have gen: "generation_function NewsArticle ?w ?a1
       = (Inr (Some \<lparr>pkg_text = JStr (lit ''Hello''),
                     query_for_image = JStr (lit ''NASA announces new mission'')\<rparr>),
          ?a1\<lparr>ai_requests := [(?p, False)]\<rparr>)"
    using online_news [OF hello_reply_shape hello key news_key(2)]
    by (simp add: cfg fields create_master_prompt_def)
  have hne: "lit ''Hello'' \<noteq> []" "length (lit ''Hello'') \<le> 280"
    by (simp_all add: lit_def)
  have "perform_post_action ?w (lit ''post_only_news'') ?a1
          = (Inr (), post_tweet_in_browser (JStr (lit ''Hello'')) None
                       (?a1\<lparr>ai_requests := [(?p, False)]\<rparr>))"
    by (rule post_plain [OF gf gen _ hne]) (simp_all add: init_def fields)
  with run have trace: "ai_requests (snd (run_action_cycle ?w ?a)) = [(?p, False)]"
    by (simp add: post_tweet_in_browser_def)
  from fresh kept trace explicit show ?thesis
    by (intro conjI) assumption+
qed

end
